theory Spec2Isabelle
  imports Main
begin

section \<open>Strings and formatting used by the worker\<close>

text \<open>
  Go strings are byte sequences; they are modelled as \<open>string\<close>. The few functions of Go's
  standard library the pipeline calls are written out here so that every result can be
  computed: \<open>strings.Contains\<close>, \<open>strings.Split\<close> on a one-byte separator,
  \<open>strings.ToUpper\<close>/\<open>strings.ToLower\<close> (on ASCII letters) and the verb \<open>%d\<close> of
  \<open>fmt.Sprintf\<close>.
\<close>

fun strings_HasPrefix :: "string \<Rightarrow> string \<Rightarrow> bool" where
  "strings_HasPrefix s [] = True"
| "strings_HasPrefix [] (p # ps) = False"
| "strings_HasPrefix (c # s) (p # ps) = (c = p \<and> strings_HasPrefix s ps)"

fun strings_Contains :: "string \<Rightarrow> string \<Rightarrow> bool" where
  "strings_Contains [] sub = (sub = [])"
| "strings_Contains (c # s) sub = (strings_HasPrefix (c # s) sub \<or> strings_Contains s sub)"

fun strings_Split :: "string \<Rightarrow> char \<Rightarrow> string list" where
  "strings_Split [] sep = [[]]"
| "strings_Split (c # cs) sep =
     (if c = sep then [] # strings_Split cs sep
      else (case strings_Split cs sep of
              [] \<Rightarrow> [[c]]
            | x # xs \<Rightarrow> (c # x) # xs))"

definition lower_letters :: string where
  "lower_letters = ''abcdefghijklmnopqrstuvwxyz''"

definition upper_letters :: string where
  "upper_letters = ''ABCDEFGHIJKLMNOPQRSTUVWXYZ''"

definition upper_char :: "char \<Rightarrow> char" where
  "upper_char c = (case map_of (zip lower_letters upper_letters) c of None \<Rightarrow> c | Some u \<Rightarrow> u)"

definition lower_char :: "char \<Rightarrow> char" where
  "lower_char c = (case map_of (zip upper_letters lower_letters) c of None \<Rightarrow> c | Some l \<Rightarrow> l)"

definition strings_ToUpper :: "string \<Rightarrow> string" where
  "strings_ToUpper s = map upper_char s"

definition strings_ToLower :: "string \<Rightarrow> string" where
  "strings_ToLower s = map lower_char s"

definition digit_of :: "nat \<Rightarrow> char" where
  "digit_of d = ''0123456789'' ! d"

text \<open>The decimal rendering of \<open>%d\<close>: most significant digit first, no leading zero.\<close>

function fmt_nat :: "nat \<Rightarrow> string" where
  "fmt_nat n = (if n < 10 then [digit_of n] else fmt_nat (n div 10) @ [digit_of (n mod 10)])"
  by pat_completeness auto
termination
  by (relation "measure (\<lambda>n. n)") auto

declare fmt_nat.simps [simp del]

definition fmt_int :: "int \<Rightarrow> string" where
  "fmt_int i = (if i < 0 then CHR ''-'' # fmt_nat (nat (- i)) else fmt_nat (nat i))"

text \<open>Reading a decimal numeral back, to state that \<open>fmt_nat\<close> loses nothing.\<close>

definition digit_val :: "char \<Rightarrow> nat" where
  "digit_val c = (case map_of (zip ''0123456789'' [0, 1, 2, 3, 4, 5, 6, 7, 8, 9]) c of
                    None \<Rightarrow> 0 | Some d \<Rightarrow> d)"

definition read_nat :: "string \<Rightarrow> nat" where
  "read_nat s = foldl (\<lambda>acc c. 10 * acc + digit_val c) 0 s"

section \<open>Check statuses and the status derived from the issue list\<close>

text \<open>
  Modelled from the spec: the four constants of package \<open>github\<close>, which is not among the
  sources; the spec gives their values as the lowercase names pending, success, failure and
  error. \<open>github.Status\<close> itself is a string type (the code builds
  \<open>"processed/" + string(status)\<close>), so a status is a string here.
\<close>

type_synonym Status = string

definition StatusPending :: Status where "StatusPending = ''pending''"
definition StatusSuccess :: Status where "StatusSuccess = ''success''"
definition StatusFailure :: Status where "StatusFailure = ''failure''"
definition StatusError :: Status where "StatusError = ''error''"

text \<open>An issue is opaque to the driver; only the length of the list is inspected.\<close>

type_synonym Issue = string

definition getGithubStatusForIssues :: "Issue list \<Rightarrow> Status \<times> string" where
  "getGithubStatusForIssues issues =
     (if length issues = 0 then (StatusSuccess, ''No issues found!'')
      else if length issues = 1 then (StatusFailure, ''1 issue found'')
      else (StatusFailure, fmt_nat (length issues) @ '' issues found''))"

section \<open>Errors and panics\<close>

text \<open>
  A Go \<open>error\<close> is an interface value; the driver tells its dynamic types apart with type
  assertions. The three typed errors the driver inspects are constructors (with the fields
  the driver reads: \<open>IgnoredError{Status, StatusDesc, IsRecoverable}\<close>,
  \<open>InternalError{PublicDesc, PrivateDesc}\<close>, \<open>BadInputError{PublicDesc, PrivateDesc}\<close>);
  every other error (\<open>fmt.Errorf\<close>, \<open>errors.Wrap\<close>, transport errors) is \<open>OtherError\<close>
  with its message.
\<close>

datatype error =
    IgnoredError Status string bool
  | InternalError string string
  | BadInputError string string
  | OtherError string

text \<open>
  A call either panics (with the panic value as \<open>%s\<close> and \<open>%v\<close> print it) or returns.
\<close>

datatype 'a outcome = Panic string | Ret 'a

definition nil_dereference :: string where
  "nil_dereference = ''runtime error: invalid memory address or nil pointer dereference''"

section \<open>Data of a job\<close>

record github_Repo =
  Owner :: string
  Name :: string

record github_Context =
  Repo :: github_Repo
  GithubAccessToken :: string
  PullRequestNumber :: int

text \<open>The fields of \<open>gh.PullRequest\<close> the driver reads through its getters.\<close>

record PullRequest =
  pr_State :: string
  pr_Number :: int
  pr_HeadSHA :: string
  pr_HeadRef :: string

record fetchers_Repo =
  CloneURL :: string
  Ref :: string
  FullPath :: string

record Result =
  Issues :: "Issue list"
  res_ResultJSON :: string

record workerRes =
  Timings :: "(string \<times> nat) list"
  Warnings :: "(string \<times> string) list"
  Error :: string

record resultJSON =
  Version :: nat
  WorkerRes :: workerRes
  GolangciLintRes :: "string option"

record State =
  Status :: string
  ReportedIssuesCount :: nat
  ResultJSON :: "resultJSON option"
  CreatedAt :: nat

definition internalError :: string where "internalError = ''Internal error''"
definition statusSentToQueue :: string where "statusSentToQueue = ''sent_to_queue''"
definition statusProcessing :: string where "statusProcessing = ''processing''"
definition statusProcessed :: string where "statusProcessed = ''processed''"
definition noGoFilesToAnalyzeMessage :: string where
  "noGoFilesToAnalyzeMessage = ''No Go files to analyze''"
definition noGoFilesToAnalyzeErr :: string where
  "noGoFilesToAnalyzeErr = ''no go files to analyze''"
definition patchPath :: string where "patchPath = ''../changes.patch''"

section \<open>Executors\<close>

text \<open>
  Modelled from the spec: the struct \<open>shell\<close> embedded in \<open>TempDirShell\<close> and its method
  \<open>SetEnv\<close> are not among the sources. The spec gives an executor a working directory and
  environment overrides, "a mapping from name to value, last-write-wins", held in the struct
  itself, so that copying the struct copies them.
\<close>

record shell =
  wd :: string
  env :: "string \<rightharpoonup> string"

definition shell_SetEnv :: "shell \<Rightarrow> string \<Rightarrow> string \<Rightarrow> shell" where
  "shell_SetEnv s k v = s\<lparr>env := (env s)(k \<mapsto> v)\<rparr>"

text \<open>
  \<open>TempDirShell.WithEnv\<close> and \<open>TempDirShell.WithWorkDir\<close> have value receivers: they work
  on \<open>eCopy := s\<close> and return its address. These two functions give the contents of the copy.
\<close>

definition WithEnv_copy :: "shell \<Rightarrow> string \<Rightarrow> string \<Rightarrow> shell" where
  "WithEnv_copy s k v = (let eCopy = s in shell_SetEnv eCopy k v)"

definition WithWorkDir_copy :: "shell \<Rightarrow> string \<Rightarrow> shell" where
  "WithWorkDir_copy s p = (let eCopy = s in eCopy\<lparr>wd := p\<rparr>)"

text \<open>
  Executors are used through pointers (\<open>Executor\<close> holds a \<open>*TempDirShell\<close>), so
  whether a derivation leaves its parent alone is a question of aliasing. The store is the list of allocated executors; an
  address is an index into it, \<open>&eCopy\<close> allocates a new cell, and a call through an address
  that was never allocated is a nil dereference (\<open>None\<close>).
\<close>

type_synonym addr = nat
type_synonym store = "shell list"

definition WithEnv :: "store \<Rightarrow> addr \<Rightarrow> string \<Rightarrow> string \<Rightarrow> (addr \<times> store) option" where
  "WithEnv h a k v =
     (if a < length h then Some (length h, h @ [WithEnv_copy (h ! a) k v]) else None)"

definition WithWorkDir :: "store \<Rightarrow> addr \<Rightarrow> string \<Rightarrow> (addr \<times> store) option" where
  "WithWorkDir h a p =
     (if a < length h then Some (length h, h @ [WithWorkDir_copy (h ! a) p]) else None)"

text \<open>The mutators with pointer receivers: they change the executor at the address.\<close>

definition SetEnv :: "store \<Rightarrow> addr \<Rightarrow> string \<Rightarrow> string \<Rightarrow> store option" where
  "SetEnv h a k v = (if a < length h then Some (h[a := shell_SetEnv (h ! a) k v]) else None)"

definition SetWorkDir :: "store \<Rightarrow> addr \<Rightarrow> string \<Rightarrow> store option" where
  "SetWorkDir h a p = (if a < length h then Some (h[a := (h ! a)\<lparr>wd := p\<rparr>]) else None)"

section \<open>The processor of a pull request\<close>

text \<open>
  The structured log of the external builder: groups of steps, each step with a
  description and an error text.
\<close>

record log_Step =
  Description :: string
  step_Error :: string

record log_Group =
  group_Name :: string
  Steps :: "log_Step list"

text \<open>
  \<open>Go2\<close> is the only implementation of \<open>workspaces.Installer\<close> among the sources; the
  field \<open>newWorkspaceInstaller\<close> is \<open>None\<close> for the nil interface. \<open>gw\<close> says whether
  the legacy workspace has been created. \<open>timings\<close> and \<open>warnings\<close> are the fields of the
  embedded \<open>resultCollector\<close>; \<open>gcontext\<close> is the field \<open>context\<close>.
\<close>

record Go2 =
  go2_exec :: shell

record githubGoPR =
  pr :: "PullRequest option"
  analysisGUID :: string
  gcontext :: github_Context
  gw :: bool
  resLog :: "log_Group list option"
  exec :: shell
  timings :: "(string \<times> nat) list"
  warnings :: "(string \<times> string) list"
  newWorkspaceInstaller :: "Go2 option"

section \<open>The collaborators of one job\<close>

record task_Task =
  task_Context :: github_Context
  APIRequestID :: string
  UserID :: nat
  AnalysisGUID :: string

record envbuild_Result =
  eb_WorkDir :: string
  eb_Environment :: "(string \<times> string) list"
  eb_Log :: "log_Group list option"
  eb_Error :: string

text \<open>
  Everything the driver calls but does not implement is an interface or another package:
  the hosting client, the state store, the repo fetcher, the legacy workspace, the runner,
  the reporter, the operating system. One run of a job sees one answer from each of them;
  \<open>world\<close> collects these answers. Calls made inside \<open>work\<close> may panic, since the code
  recovers from that; \<open>ioutil.TempFile\<close> answers an error or the name of the new file.
  The helpers \<open>escapeErrorText\<close>, \<open>github.IsRecoverableError\<close>, \<open>Context.GetCloneURL\<close>,
  the \<open>Error()\<close> methods of the typed errors, \<open>path.Join\<close> and \<open>json.Unmarshal\<close> are
  not among the sources and are taken as they come; so are the processor factory and
  the \<open>%+v\<close> rendering of a task. Durations are wall-clock readings. The errors of
  \<open>UpdateState\<close> and \<open>SetCommitStatus\<close> are only logged by the driver, and logging is
  not recorded, so these two calls appear as events only.
\<close>

record world =
  getPullRequest :: "error + PullRequest"
  isRecoverableError :: "error \<Rightarrow> bool"
  getCloneURL :: "github_Context \<Rightarrow> PullRequest \<Rightarrow> string"
  getPullRequestPatch :: "error + string"
  gwSetup :: "error option"
  gwGopath :: string
  gwExecutor :: shell
  gwFetchDeps :: "(error + (string \<times> string) list) outcome"
  repoFetch :: "fetchers_Repo \<Rightarrow> error option outcome"
  execRun :: "shell \<Rightarrow> string \<Rightarrow> error + string"
  jsonUnmarshal :: "string \<Rightarrow> error + envbuild_Result"
  pathJoin :: "string list \<Rightarrow> string"
  tempFile :: "error + string"
  writeFile :: "string \<Rightarrow> string \<Rightarrow> error option"
  execCopyFile :: "shell \<Rightarrow> string \<Rightarrow> string \<Rightarrow> error option"
  getState :: "error + State"
  runnerRun :: "shell \<Rightarrow> (Result option \<times> error option) outcome"
  reporterReport :: "string \<Rightarrow> Issue list \<Rightarrow> error option outcome"
  environ :: "string list"
  escapeErrorText :: "string \<Rightarrow> (string \<rightharpoonup> string) \<Rightarrow> string"
  typedErrorText :: "error \<Rightarrow> string"
  elapsed :: "string \<Rightarrow> nat"
  debugStack :: string
  buildProcessor :: "task_Task \<Rightarrow> error + githubGoPR"
  taskText :: "task_Task \<Rightarrow> string"

definition Error_of :: "world \<Rightarrow> error \<Rightarrow> string" where
  "Error_of w e = (case e of OtherError m \<Rightarrow> m | _ \<Rightarrow> typedErrorText w e)"

text \<open>
  \<open>os.Getenv\<close> reads the same environment \<open>os.Environ\<close> lists (entries \<open>key=value\<close>); a
  variable that is not set reads as the empty string.
\<close>

fun os_Getenv :: "string list \<Rightarrow> string \<Rightarrow> string" where
  "os_Getenv [] key = []"
| "os_Getenv (kv # rest) key =
     (if strings_HasPrefix kv (key @ ''='') then drop (length key + 1) kv
      else os_Getenv rest key)"

definition is_set :: "string list \<Rightarrow> string \<Rightarrow> bool" where
  "is_set vars key = list_ex (\<lambda>kv. strings_HasPrefix kv (key @ ''='')) vars"

text \<open>What the driver observes of its collaborators, in the order of the calls.\<close>

datatype event =
    EvSetCommitStatus string Status string string
  | EvUpdateState string string string State
  | EvFetch fetchers_Repo
  | EvFetchDeps string
  | EvGoenvbuild shell
  | EvRunLinters shell
  | EvReport string "Issue list"
  | EvGwClean
  | EvExecClean shell

section \<open>The result collector and the getters\<close>

text \<open>
  Modelled from the spec: \<open>resultCollector\<close> is not among the sources. Timings and
  warnings are append-only lists; \<open>trackTiming\<close> appends after the measured function has
  returned, \<open>addTimingFrom\<close> and \<open>publicWarn\<close> append at once.
\<close>

definition addTiming :: "world \<Rightarrow> string \<Rightarrow> githubGoPR \<Rightarrow> githubGoPR" where
  "addTiming w name g = g\<lparr>timings := timings g @ [(name, elapsed w name)]\<rparr>"

definition publicWarn :: "string \<Rightarrow> string \<Rightarrow> githubGoPR \<Rightarrow> githubGoPR" where
  "publicWarn stage txt g = g\<lparr>warnings := warnings g @ [(stage, txt)]\<rparr>"

text \<open>The getters of \<open>gh.PullRequest\<close> answer the zero value on a nil pointer.\<close>

definition GetState :: "PullRequest option \<Rightarrow> string" where
  "GetState p = (case p of None \<Rightarrow> [] | Some q \<Rightarrow> pr_State q)"

definition GetNumber :: "PullRequest option \<Rightarrow> int" where
  "GetNumber p = (case p of None \<Rightarrow> 0 | Some q \<Rightarrow> pr_Number q)"

definition GetSHA :: "PullRequest option \<Rightarrow> string" where
  "GetSHA p = (case p of None \<Rightarrow> [] | Some q \<Rightarrow> pr_HeadSHA q)"

definition GetRef :: "PullRequest option \<Rightarrow> string" where
  "GetRef p = (case p of None \<Rightarrow> [] | Some q \<Rightarrow> pr_HeadRef q)"

definition getRepo :: "world \<Rightarrow> githubGoPR \<Rightarrow> fetchers_Repo" where
  "getRepo w g =
     \<lparr>CloneURL = (case pr g of None \<Rightarrow> [] | Some q \<Rightarrow> getCloneURL w (gcontext g) q),
      Ref = GetRef (pr g),
      FullPath = ''github.com/'' @ Owner (Repo (gcontext g)) @ ''/'' @ Name (Repo (gcontext g))\<rparr>"

subsection \<open>buildSecrets\<close>

definition hidden :: string where "hidden = ''{hidden}''"

definition addEnvSecret :: "string \<Rightarrow> (string \<rightharpoonup> string) \<Rightarrow> (string \<rightharpoonup> string)" where
  "addEnvSecret kv ret =
     (let parts = strings_Split kv CHR ''=''
      in if length parts \<noteq> 2 then ret
         else (let v = parts ! 1 in if 6 \<le> length v then ret(v \<mapsto> hidden) else ret))"

definition buildSecrets :: "world \<Rightarrow> githubGoPR \<Rightarrow> (string \<rightharpoonup> string)" where
  "buildSecrets w g =
     (let ret = [GithubAccessToken (gcontext g) \<mapsto> hidden, analysisGUID g \<mapsto> hidden];
          ret = (if newWorkspaceInstaller g = None then ret(gwGopath w \<mapsto> ''$GOPATH'') else ret)
      in fold addEnvSecret (environ w) ret)"

subsection \<open>storePatch\<close>

text \<open>
  \<open>defer os.Remove(f.Name())\<close> evaluates \<open>f.Name()\<close> when the defer statement runs, before
  the error of \<open>ioutil.TempFile\<close> is looked at; with a failed \<open>TempFile\<close> the handle
  \<open>f\<close> is nil and \<open>f.Name()\<close> dereferences it.
\<close>

definition storePatch :: "world \<Rightarrow> string \<Rightarrow> shell \<Rightarrow> error option outcome" where
  "storePatch w patch ex =
     (case tempFile w of
        Inl err \<Rightarrow> Panic nil_dereference
      | Inr fname \<Rightarrow>
          (case writeFile w fname patch of
             Some err \<Rightarrow>
               Ret (Some (OtherError (''can't write patch to temp file '' @ fname @ '': ''
                                        @ Error_of w err)))
           | None \<Rightarrow>
               (case execCopyFile w ex patchPath fname of
                  Some err \<Rightarrow> Ret (Some (OtherError (''can't copy patch file: '' @ Error_of w err)))
                | None \<Rightarrow> Ret None)))"

subsection \<open>updateAnalysisState and setCommitStatus\<close>

definition updateAnalysisState ::
  "world \<Rightarrow> githubGoPR \<Rightarrow> Result option \<Rightarrow> Status \<Rightarrow> string \<Rightarrow> event list" where
  "updateAnalysisState w g res status publicError =
     (let resJSON = \<lparr>Version = 1,
                     WorkerRes = \<lparr>Timings = timings g, Warnings = warnings g, Error = publicError\<rparr>,
                     GolangciLintRes = None\<rparr>;
          issuesCount = 0;
          (resJSON, issuesCount) =
            (case res of
               None \<Rightarrow> (resJSON, issuesCount)
             | Some r \<Rightarrow> (resJSON\<lparr>GolangciLintRes := Some (res_ResultJSON r)\<rparr>, length (Issues r)));
          s = \<lparr>Status = ''processed/'' @ status,
               ReportedIssuesCount = issuesCount,
               ResultJSON = Some resJSON,
               CreatedAt = 0\<rparr>
      in [EvUpdateState (Owner (Repo (gcontext g))) (Name (Repo (gcontext g))) (analysisGUID g) s])"

definition detailsURL :: "world \<Rightarrow> githubGoPR \<Rightarrow> Status \<Rightarrow> string" where
  "detailsURL w g status =
     (if status = StatusFailure \<or> status = StatusSuccess \<or> status = StatusError
      then os_Getenv (environ w) ''WEB_ROOT'' @ ''/r/github.com/'' @ Owner (Repo (gcontext g))
           @ ''/'' @ Name (Repo (gcontext g)) @ ''/pulls/'' @ fmt_int (GetNumber (pr g))
      else [])"

text \<open>
  \<open>setCommitStatus\<close> has a value receiver: the warning it appends when the client fails
  goes to its own copy of the processor and is lost to the caller. What remains is the call.
\<close>

definition setCommitStatus :: "world \<Rightarrow> githubGoPR \<Rightarrow> Status \<Rightarrow> string \<Rightarrow> event list" where
  "setCommitStatus w g status desc =
     (let url = detailsURL w g status
      in [EvSetCommitStatus (GetSHA (pr g)) status desc url])"

section \<open>The external builder\<close>

text \<open>
  \<open>Go2.Setup\<close>: fetch the repository, run \<open>goenvbuild\<close> on an executor derived from
  \<open>w.exec\<close>, decode its answer, and derive the executor to return from \<open>w.exec\<close> again.
  \<open>errors.Wrap(err, m)\<close> is an error of no inspected type with the message
  \<open>m: err\<close>. The answer's environment is listed in the order the map is ranged over.
\<close>

definition Go2_Setup ::
  "world \<Rightarrow> Go2 \<Rightarrow> fetchers_Repo \<Rightarrow> string list
     \<Rightarrow> (error + shell \<times> log_Group list option) outcome \<times> event list" where
  "Go2_Setup w wi repo projectPathParts =
     (case repoFetch w repo of
        Panic v \<Rightarrow> (Panic v, [EvFetch repo])
      | Ret (Some err) \<Rightarrow>
          (Ret (Inl (OtherError (''failed to fetch repo: '' @ Error_of w err))), [EvFetch repo])
      | Ret None \<Rightarrow>
          (let ex = WithEnv_copy (WithEnv_copy (go2_exec wi) ''REPO'' (pathJoin w projectPathParts))
                      ''FORMAT_JSON'' ''1'';
               evs = [EvFetch repo, EvGoenvbuild ex]
           in case execRun w ex ''goenvbuild'' of
                Inl err \<Rightarrow> (Ret (Inl (OtherError (''goenvbuild failed: '' @ Error_of w err))), evs)
              | Inr out \<Rightarrow>
                  (case jsonUnmarshal w out of
                     Inl err \<Rightarrow>
                       (Ret (Inl (OtherError (''failed to unmarshal goenvbuild result json: ''
                                                @ Error_of w err))), evs)
                   | Inr envbuildResult \<Rightarrow>
                       if eb_Error envbuildResult \<noteq> []
                       then (Ret (Inl (OtherError (''goenvbuild internal error: ''
                                                     @ eb_Error envbuildResult))), evs)
                       else (let retExec = WithWorkDir_copy (go2_exec wi) (eb_WorkDir envbuildResult);
                                 retExec = fold (\<lambda>(k, v) e. WithEnv_copy e k v)
                                             (eb_Environment envbuildResult) retExec
                             in (Ret (Inr (retExec, eb_Log envbuildResult)), evs)))))"

section \<open>The work function\<close>

definition warnStep :: "world \<Rightarrow> string \<Rightarrow> log_Step \<Rightarrow> githubGoPR \<Rightarrow> githubGoPR" where
  "warnStep w sgName s g =
     (if step_Error s \<noteq> []
      then (let txt = Description s @ '' error: '' @ step_Error s;
                txt = escapeErrorText w txt (buildSecrets w g)
            in publicWarn sgName txt g)
      else g)"

definition warnGroup :: "world \<Rightarrow> log_Group \<Rightarrow> githubGoPR \<Rightarrow> githubGoPR" where
  "warnGroup w sg g = fold (warnStep w (group_Name sg)) (Steps sg) g"

definition warnDeps :: "world \<Rightarrow> string \<times> string \<Rightarrow> githubGoPR \<Rightarrow> githubGoPR" where
  "warnDeps w kt g =
     (let warnText = ''Fetch deps: '' @ fst kt @ '': '' @ snd kt;
          warnText = escapeErrorText w warnText (buildSecrets w g)
      in publicWarn ''prepare repo'' warnText g)"

definition prepareRepo ::
  "world \<Rightarrow> githubGoPR \<Rightarrow> error option outcome \<times> githubGoPR \<times> event list" where
  "prepareRepo w g =
     (if newWorkspaceInstaller g \<noteq> None
      then (Ret None,
            (case resLog g of None \<Rightarrow> g | Some groups \<Rightarrow> fold (warnGroup w) groups g),
            [])
      else
        (let repo = getRepo w g
         in case repoFetch w repo of
              Panic v \<Rightarrow> (Panic v, g, [EvFetch repo])
            | Ret fetchErr \<Rightarrow>
                (let g = addTiming w ''Clone'' g
                 in case fetchErr of
                      Some err \<Rightarrow>
                        (Ret (Some (InternalError ''can't clone git repo''
                                      (''can't clone git repo: '' @ Error_of w err))),
                         g, [EvFetch repo])
                    | None \<Rightarrow>
                        (case gwFetchDeps w of
                           Panic v \<Rightarrow> (Panic v, g, [EvFetch repo, EvFetchDeps (FullPath repo)])
                         | Ret depsRes \<Rightarrow>
                             (let g = addTiming w ''Deps'' g;
                                  g = (case depsRes of
                                         Inl err \<Rightarrow> g
                                       | Inr ws \<Rightarrow> fold (warnDeps w) ws g)
                              in (Ret None, g, [EvFetch repo, EvFetchDeps (FullPath repo)]))))))"

text \<open>
  The body of \<open>work\<close> up to the point where it returns or panics. \<open>work\<close> has the named
  results \<open>res\<close> and \<open>err\<close>; the first component says whether the body panicked (and with
  what), the second and third are the values of \<open>res\<close> and \<open>err\<close> at that moment: a
  \<open>return nil, e\<close> sets \<open>res\<close> to nil, a panic leaves what was last assigned.
\<close>

definition work_body ::
  "world \<Rightarrow> githubGoPR
     \<Rightarrow> string option \<times> Result option \<times> error option \<times> githubGoPR \<times> event list" where
  "work_body w g =
     (let prState = strings_ToUpper (GetState (pr g))
      in if prState = ''MERGED'' \<or> prState = ''CLOSED''
         then (None, None,
               Some (IgnoredError StatusSuccess
                       (''Pull Request is already '' @ strings_ToLower prState) False),
               publicWarn ''process'' (''Pull Request is already '' @ prState @ '', skip analysis'') g,
               [])
         else
           (case prepareRepo w g of
              (Panic v, g1, evs) \<Rightarrow> (Some v, None, None, g1, evs)
            | (Ret (Some err), g1, evs) \<Rightarrow> (None, None, Some err, g1, evs)
            | (Ret None, g1, evs) \<Rightarrow>
                (let evs2 = evs @ [EvRunLinters (exec g1)]
                 in case runnerRun w (exec g1) of
                      Panic v \<Rightarrow> (Some v, None, None, g1, evs2)
                    | Ret (res, runErr) \<Rightarrow>
                        (let g2 = addTiming w ''Analysis'' g1
                         in case runErr of
                              Some err \<Rightarrow> (None, None, Some err, g2, evs2)
                            | None \<Rightarrow>
                                (case res of
                                   None \<Rightarrow> (Some nil_dereference, None, None, g2, evs2)
                                 | Some r \<Rightarrow>
                                     (let evs3 = evs2 @ [EvReport (GetSHA (pr g2)) (Issues r)]
                                      in case reporterReport w (GetSHA (pr g2)) (Issues r) of
                                           Panic v \<Rightarrow> (Some v, Some r, None, g2, evs3)
                                         | Ret (Some err) \<Rightarrow>
                                             (None, None,
                                              Some (InternalError
                                                      ''can't send pull request comments to github''
                                                      (''can't send pull request comments to github: ''
                                                         @ Error_of w err)),
                                              g2, evs3)
                                         | Ret None \<Rightarrow> (None, Some r, None, g2, evs3)))))))"

text \<open>The deferred function of \<open>work\<close>: a panic of the body becomes the result \<open>err\<close>.\<close>

definition work ::
  "world \<Rightarrow> githubGoPR \<Rightarrow> Result option \<times> error option \<times> githubGoPR \<times> event list" where
  "work w g =
     (case work_body w g of
        (Some rerr, res, err, g1, evs) \<Rightarrow>
          (res,
           Some (InternalError ''golangci-worker panic-ed''
                   (''panic occured: '' @ rerr @ '', '' @ debugStack w)),
           g1, evs)
      | (None, res, err, g1, evs) \<Rightarrow> (res, err, g1, evs))"

section \<open>Finalization\<close>

definition processWithGuaranteedGithubStatus ::
  "world \<Rightarrow> githubGoPR \<Rightarrow> error option outcome \<times> event list" where
  "processWithGuaranteedGithubStatus w g =
     (case work w g of
        (res, err, g1, evs) \<Rightarrow>
          (let decided =
                 (case err of
                    Some (IgnoredError st desc isRecoverable) \<Rightarrow>
                      Ret (st, desc, [], if \<not> isRecoverable then None else err)
                  | Some (InternalError publicDesc privateDesc) \<Rightarrow>
                      if strings_Contains privateDesc noGoFilesToAnalyzeErr
                      then Ret (StatusSuccess, noGoFilesToAnalyzeMessage, noGoFilesToAnalyzeMessage, None)
                      else Ret (StatusError, publicDesc, publicDesc, err)
                  | Some (BadInputError publicDesc privateDesc) \<Rightarrow>
                      Ret (StatusError, ''can't analyze'',
                           escapeErrorText w publicDesc (buildSecrets w g1), None)
                  | Some (OtherError m) \<Rightarrow> Ret (StatusError, internalError, internalError, err)
                  | None \<Rightarrow>
                      (case res of
                         None \<Rightarrow> Panic nil_dereference
                       | Some r \<Rightarrow>
                           (case getGithubStatusForIssues (Issues r) of
                              (st, desc) \<Rightarrow> Ret (st, desc, [], None))))
           in case decided of
                Panic v \<Rightarrow> (Panic v, evs)
              | Ret (status, statusDesc, publicError, err') \<Rightarrow>
                  (Ret err',
                   evs @ updateAnalysisState w g1 res status publicError
                       @ setCommitStatus w g1 status statusDesc)))"

section \<open>Process\<close>

text \<open>
  \<open>Process\<close> is one function of nine stages; it is written here in three parts. A part
  either ends the run (\<open>Inl\<close>, with what \<open>Process\<close> returns or panics with) or hands
  the processor on (\<open>Inr\<close>).

  Stages 1 to 3: fetch the pull request, set the pending status, provision the workspace.
  The last component of \<open>Inr\<close> says whether \<open>defer g.gw.Clean(ctx)\<close> has been reached.
\<close>

definition Process_provision ::
  "world \<Rightarrow> githubGoPR
     \<Rightarrow> (error option outcome \<times> event list) + (githubGoPR \<times> event list \<times> bool)" where
  "Process_provision w g =
     (case getPullRequest w of
        Inl err \<Rightarrow>
          (if \<not> isRecoverableError w err then Inl (Ret (Some err), [])
           else Inl (Ret (Some (OtherError (''can't get pull request: '' @ Error_of w err))), []))
      | Inr p \<Rightarrow>
          (let g = g\<lparr>pr := Some p\<rparr>;
               evs = setCommitStatus w g StatusPending ''GolangCI is reviewing your Pull Request...''
           in case newWorkspaceInstaller g of
                None \<Rightarrow>
                  (let g = g\<lparr>gw := True\<rparr>
                   in case gwSetup w of
                        Some err \<Rightarrow>
                          (let publicError = ''failed to setup workspace: '' @ Error_of w err;
                               publicError = escapeErrorText w publicError (buildSecrets w g)
                           in Inl (Ret (Some (OtherError (''can't setup go workspace: ''
                                                            @ Error_of w err))),
                                   evs @ updateAnalysisState w g None StatusError publicError
                                       @ setCommitStatus w g StatusError ''failed to setup''))
                      | None \<Rightarrow> Inr (g\<lparr>exec := gwExecutor w\<rparr>, evs, True))
              | Some wi \<Rightarrow>
                  (case Go2_Setup w wi (getRepo w g)
                          [''github.com'', Owner (Repo (gcontext g)), Name (Repo (gcontext g))] of
                     (Panic v, evsS) \<Rightarrow> Inl (Panic v, evs @ evsS)
                   | (Ret (Inl err), evsS) \<Rightarrow>
                       (let publicError = ''failed to setup workspace: '' @ Error_of w err;
                            publicError = escapeErrorText w publicError (buildSecrets w g)
                        in Inl (Ret None,
                                evs @ evsS @ updateAnalysisState w g None StatusError publicError
                                    @ setCommitStatus w g StatusError ''failed to setup''))
                   | (Ret (Inr (ex, rl)), evsS) \<Rightarrow>
                       (let g = g\<lparr>exec := ex, resLog := rl\<rparr>;
                            g = addTiming w ''Prepare'' g
                        in Inr (g, evs @ evsS, False)))))"

text \<open>Stages 4 to 6: fetch the patch, store it, refresh the queue timing.\<close>

definition Process_patch ::
  "world \<Rightarrow> githubGoPR \<Rightarrow> error option outcome + (githubGoPR \<times> event list)" where
  "Process_patch w g =
     (case getPullRequestPatch w of
        Inl err \<Rightarrow>
          (if \<not> isRecoverableError w err then Inl (Ret (Some err))
           else Inl (Ret (Some (OtherError (''can't get patch: '' @ Error_of w err)))))
      | Inr patch \<Rightarrow>
          (case storePatch w patch (exec g) of
             Panic v \<Rightarrow> Inl (Panic v)
           | Ret (Some err) \<Rightarrow>
               Inl (Ret (Some (OtherError (''can't store patch: '' @ Error_of w err))))
           | Ret None \<Rightarrow>
               (case getState w of
                  Inl err \<Rightarrow> Inr (g, [])
                | Inr curState \<Rightarrow>
                    if Status curState = statusSentToQueue
                    then Inr (addTiming w ''In Queue'' g,
                              [EvUpdateState (Owner (Repo (gcontext g))) (Name (Repo (gcontext g)))
                                 (analysisGUID g) (curState\<lparr>Status := statusProcessing\<rparr>)])
                    else Inr (g, []))))"

text \<open>The three parts in sequence; stages 7 to 9 are \<open>processWithGuaranteedGithubStatus\<close>.\<close>

definition Process_body ::
  "world \<Rightarrow> githubGoPR \<Rightarrow> error option outcome \<times> event list \<times> bool" where
  "Process_body w g =
     (case Process_provision w g of
        Inl (r, evs) \<Rightarrow> (r, evs, False)
      | Inr (g1, evs1, gwDeferred) \<Rightarrow>
          (case Process_patch w g1 of
             Inl r \<Rightarrow> (r, evs1, gwDeferred)
           | Inr (g2, evs2) \<Rightarrow>
               (case processWithGuaranteedGithubStatus w g2 of
                  (r, evs3) \<Rightarrow> (r, evs1 @ evs2 @ evs3, gwDeferred))))"

text \<open>
  \<open>Process\<close> with its deferred calls, which run on return and on panic alike:
  \<open>g.gw.Clean\<close> if it was deferred, then \<open>g.exec.Clean\<close> on the executor the processor
  held when \<open>Process\<close> started.
\<close>

definition Process :: "world \<Rightarrow> githubGoPR \<Rightarrow> error option outcome \<times> event list" where
  "Process w g =
     (case Process_body w g of
        (r, evs, gwDeferred) \<Rightarrow>
          (r, evs @ (if gwDeferred then [EvGwClean] else []) @ [EvExecClean (exec g)]))"

section \<open>The queue task handlers\<close>

text \<open>The parameter \<open>guid\<close> is \<open>analysisGUID\<close>, \<open>reqID\<close> is \<open>APIRequestID\<close>.\<close>

definition analyze ::
  "world \<Rightarrow> string \<Rightarrow> string \<Rightarrow> string \<Rightarrow> int \<Rightarrow> string \<Rightarrow> nat \<Rightarrow> string
     \<Rightarrow> error option outcome \<times> event list" where
  "analyze w repoOwner repoName githubAccessToken pullRequestNumber reqID userID guid =
     (let t = \<lparr>task_Context = \<lparr>Repo = \<lparr>Owner = repoOwner, Name = repoName\<rparr>,
                               GithubAccessToken = githubAccessToken,
                               PullRequestNumber = pullRequestNumber\<rparr>,
               APIRequestID = reqID, UserID = userID, AnalysisGUID = guid\<rparr>
      in case buildProcessor w t of
           Inl err \<Rightarrow>
             (Ret (Some (OtherError (''can't build processor for task '' @ taskText w t
                                       @ '': '' @ Error_of w err))), [])
         | Inr p \<Rightarrow>
             (case Process w p of
                (Panic v, evs) \<Rightarrow> (Panic v, evs)
              | (Ret (Some err), evs) \<Rightarrow>
                  (Ret (Some (OtherError (''can't process task '' @ taskText w t
                                            @ '': '' @ Error_of w err))), evs)
              | (Ret None, evs) \<Rightarrow> (Ret None, evs)))"

text \<open>
  \<open>analyzeLogged\<close> adds tracking properties and telemetry around \<open>analyze\<close> and returns its
  error unchanged.
\<close>

definition analyzeLogged ::
  "world \<Rightarrow> string \<Rightarrow> string \<Rightarrow> string \<Rightarrow> int \<Rightarrow> string \<Rightarrow> nat \<Rightarrow> string
     \<Rightarrow> error option outcome \<times> event list" where
  "analyzeLogged w repoOwner repoName githubAccessToken pullRequestNumber reqID userID guid =
     analyze w repoOwner repoName githubAccessToken pullRequestNumber reqID userID guid"

definition analyzeWrappedV2 ::
  "world \<Rightarrow> string \<Rightarrow> string \<Rightarrow> string \<Rightarrow> int \<Rightarrow> string \<Rightarrow> nat \<Rightarrow> string
     \<Rightarrow> error option \<times> event list" where
  "analyzeWrappedV2 w repoOwner repoName githubAccessToken pullRequestNumber reqID userID guid =
     (case analyzeLogged w repoOwner repoName githubAccessToken pullRequestNumber reqID userID
             guid of
        (Panic r, evs) \<Rightarrow>
          (Some (OtherError (''panic recovered: '' @ r @ '', '' @ debugStack w)), evs)
      | (Ret err, evs) \<Rightarrow> (err, evs))"

definition analyzeWrapped ::
  "world \<Rightarrow> string \<Rightarrow> string \<Rightarrow> string \<Rightarrow> int \<Rightarrow> string \<Rightarrow> nat
     \<Rightarrow> error option \<times> event list" where
  "analyzeWrapped w repoOwner repoName githubAccessToken pullRequestNumber reqID userID =
     analyzeWrappedV2 w repoOwner repoName githubAccessToken pullRequestNumber reqID userID []"

text \<open>
  The processor that reaches finalization, if the run gets that far: stages 1 to 6 have
  handed it on.
\<close>

definition ready :: "world \<Rightarrow> githubGoPR \<Rightarrow> githubGoPR option" where
  "ready w g =
     (case Process_provision w g of
        Inl stopped \<Rightarrow> None
      | Inr (g1, evs1, gwDeferred) \<Rightarrow>
          (case Process_patch w g1 of
             Inl stopped \<Rightarrow> None
           | Inr (g2, evs2) \<Rightarrow> Some g2))"

text \<open>
  The error of workspace provisioning, if it returns one: of \<open>g.gw.Setup\<close> for the legacy
  workspace, of \<open>newWorkspaceInstaller.Setup\<close> otherwise.
\<close>

definition setup_error :: "world \<Rightarrow> githubGoPR \<Rightarrow> error option" where
  "setup_error w g =
     (case newWorkspaceInstaller g of
        None \<Rightarrow> gwSetup w
      | Some wi \<Rightarrow>
          (case fst (Go2_Setup w wi (getRepo w g)
                       [''github.com'', Owner (Repo (gcontext g)), Name (Repo (gcontext g))]) of
             Ret (Inl err) \<Rightarrow> Some err
           | _ \<Rightarrow> None))"

section \<open>Reading a run\<close>

text \<open>
  The commit statuses of a run are the (status, description, details URL) of its
  \<open>SetCommitStatus\<close> calls, in order; its state records are the \<open>Status\<close> fields of its
  \<open>UpdateState\<close> calls, in order. A state record is terminal when its status starts with
  \<open>processed/\<close>, a commit status when it is success, failure or error. A clone is a call of
  the repo fetcher.
\<close>

definition is_terminal :: "Status \<Rightarrow> bool" where
  "is_terminal st = (st = StatusSuccess \<or> st = StatusFailure \<or> st = StatusError)"

fun commit_status_of :: "event \<Rightarrow> (Status \<times> string \<times> string) option" where
  "commit_status_of (EvSetCommitStatus sha st d u) = Some (st, d, u)"
| "commit_status_of e = None"

fun state_status_of :: "event \<Rightarrow> string option" where
  "state_status_of (EvUpdateState ow n i s) = Some (Status s)"
| "state_status_of e = None"

fun is_fetch :: "event \<Rightarrow> bool" where
  "is_fetch (EvFetch r) = True"
| "is_fetch e = False"

definition commit_statuses :: "event list \<Rightarrow> (Status \<times> string \<times> string) list" where
  "commit_statuses evs = List.map_filter commit_status_of evs"

definition state_statuses :: "event list \<Rightarrow> string list" where
  "state_statuses evs = List.map_filter state_status_of evs"

definition terminal_states :: "event list \<Rightarrow> string list" where
  "terminal_states evs = filter (\<lambda>s. strings_HasPrefix s ''processed/'') (state_statuses evs)"

definition terminal_statuses :: "event list \<Rightarrow> (Status \<times> string \<times> string) list" where
  "terminal_statuses evs = filter (\<lambda>c. is_terminal (fst c)) (commit_statuses evs)"

definition fetches :: "event list \<Rightarrow> event list" where
  "fetches evs = filter is_fetch evs"

text \<open>Two processors of the same job: they differ in timings and warnings at most.\<close>

definition same_job :: "githubGoPR \<Rightarrow> githubGoPR \<Rightarrow> bool" where
  "same_job g g' =
     (pr g' = pr g \<and> analysisGUID g' = analysisGUID g \<and> gcontext g' = gcontext g
      \<and> gw g' = gw g \<and> resLog g' = resLog g \<and> exec g' = exec g
      \<and> newWorkspaceInstaller g' = newWorkspaceInstaller g)"

definition pendingDesc :: string where
  "pendingDesc = ''GolangCI is reviewing your Pull Request...''"

section \<open>Concrete jobs\<close>

text \<open>
  A job on pull request 7 of \<open>golangci/test\<close> in a world where every collaborator
  succeeds, the analyzer reports two issues and \<open>WEB_ROOT\<close> is not set; the other worlds
  differ from it in one answer each. \<open>proc_B\<close> uses the external builder, \<open>proc_A\<close> the
  legacy workspace.
\<close>

definition sh0 :: shell where
  "sh0 = \<lparr>wd = ''/tmp/golangci.test'', env = Map.empty\<rparr>"

definition pr0 :: PullRequest where
  "pr0 = \<lparr>pr_State = ''open'', pr_Number = 7, pr_HeadSHA = ''abc123'', pr_HeadRef = ''feature''\<rparr>"

definition ctx0 :: github_Context where
  "ctx0 = \<lparr>Repo = \<lparr>Owner = ''golangci'', Name = ''test''\<rparr>,
           GithubAccessToken = ''token123'', PullRequestNumber = 7\<rparr>"

definition proc_B :: githubGoPR where
  "proc_B = \<lparr>pr = None, analysisGUID = ''guid-1'', gcontext = ctx0, gw = False, resLog = None,
             exec = sh0, timings = [], warnings = [],
             newWorkspaceInstaller = Some \<lparr>go2_exec = sh0\<rparr>\<rparr>"

definition proc_A :: githubGoPR where
  "proc_A = proc_B\<lparr>newWorkspaceInstaller := None\<rparr>"

definition world_ok :: world where
  "world_ok =
     \<lparr>getPullRequest = Inr pr0,
      isRecoverableError = (\<lambda>e. False),
      getCloneURL = (\<lambda>c p. ''https://github.com/golangci/test.git''),
      getPullRequestPatch = Inr ''diff'',
      gwSetup = None,
      gwGopath = ''/tmp/gopath'',
      gwExecutor = sh0,
      gwFetchDeps = Ret (Inr []),
      repoFetch = (\<lambda>r. Ret None),
      execRun = (\<lambda>e c. Inr ''{}''),
      jsonUnmarshal = (\<lambda>out. Inr \<lparr>eb_WorkDir = ''/goapp'', eb_Environment = [(''GOPATH'', ''/go'')],
                                    eb_Log = None, eb_Error = []\<rparr>),
      pathJoin = (\<lambda>ps. foldr (\<lambda>q acc. if acc = [] then q else q @ ''/'' @ acc) ps []),
      tempFile = Inr ''/tmp/golangci.diff1'',
      writeFile = (\<lambda>n d. None),
      execCopyFile = (\<lambda>e d s. None),
      getState = Inr \<lparr>Status = ''sent_to_queue'', ReportedIssuesCount = 0, ResultJSON = None,
                       CreatedAt = 0\<rparr>,
      runnerRun = (\<lambda>e. Ret (Some \<lparr>Issues = [''i1'', ''i2''], res_ResultJSON = ''{}''\<rparr>, None)),
      reporterReport = (\<lambda>sha is. Ret None),
      environ = [''HOME=/root''],
      escapeErrorText = (\<lambda>t m. t),
      typedErrorText = (\<lambda>e. ''typed error''),
      elapsed = (\<lambda>n. 1),
      debugStack = ''goroutine 1 [running]'',
      buildProcessor = (\<lambda>t. Inr (proc_B\<lparr>gcontext := task_Context t,
                                              analysisGUID := AnalysisGUID t\<rparr>)),
      taskText = (\<lambda>t. ''task'')\<rparr>"

text \<open>The processors these jobs hand to finalization when stages 1 to 6 succeed.\<close>

definition proc_B_ready :: "PullRequest \<Rightarrow> githubGoPR" where
  "proc_B_ready p =
     proc_B\<lparr>pr := Some p,
            exec := WithEnv_copy (WithWorkDir_copy sh0 ''/goapp'') ''GOPATH'' ''/go'',
            timings := [(''Prepare'', 1), (''In Queue'', 1)]\<rparr>"

definition proc_A_ready :: "PullRequest \<Rightarrow> githubGoPR" where
  "proc_A_ready p = proc_A\<lparr>pr := Some p, gw := True, timings := [(''In Queue'', 1)]\<rparr>"

definition world_patch_fails :: world where
  "world_patch_fails = world_ok\<lparr>getPullRequestPatch := Inl (OtherError ''502 Bad Gateway'')\<rparr>"

definition world_pr_fails :: world where
  "world_pr_fails = world_ok\<lparr>getPullRequest := Inl (OtherError ''404 Not Found'')\<rparr>"

definition world_setup_fails :: world where
  "world_setup_fails =
     world_ok\<lparr>gwSetup := Some (OtherError ''exit status 1''),
              execRun := (\<lambda>e c. Inl (OtherError ''exit status 1''))\<rparr>"

definition world_closed :: world where
  "world_closed = world_ok\<lparr>getPullRequest := Inr (pr0\<lparr>pr_State := ''CLOSED''\<rparr>)\<rparr>"

definition world_closed_patch_fails :: world where
  "world_closed_patch_fails =
     world_closed\<lparr>getPullRequestPatch := Inl (OtherError ''502 Bad Gateway'')\<rparr>"

definition world_runner_panics :: world where
  "world_runner_panics = world_ok\<lparr>runnerRun := (\<lambda>e. Panic ''index out of range'')\<rparr>"

definition world_tempfile_fails :: world where
  "world_tempfile_fails = world_ok\<lparr>tempFile := Inl (OtherError ''no space left on device'')\<rparr>"

definition world_no_go_files :: world where
  "world_no_go_files =
     world_ok\<lparr>runnerRun := (\<lambda>e. Ret (None, Some (InternalError ''can't run linters''
                                   ''golangci-lint: no go files to analyze'')))\<rparr>"

section \<open>Facts about the string functions\<close>

lemma strings_HasPrefix_iff: "strings_HasPrefix s p \<longleftrightarrow> (\<exists>q. s = p @ q)"
  by (induction s p rule: strings_HasPrefix.induct) auto

lemma strings_Contains_iff: "strings_Contains s sub \<longleftrightarrow> (\<exists>p q. s = p @ sub @ q)"
proof (induction s)
  case Nil
  then show ?case by auto
next
  case (Cons c s)
  show ?case
  proof
    assume "strings_Contains (c # s) sub"
    then consider "strings_HasPrefix (c # s) sub" | "strings_Contains s sub" by auto
    then show "\<exists>p q. c # s = p @ sub @ q"
    proof cases
      case 1
      then obtain q where "c # s = sub @ q" by (auto simp: strings_HasPrefix_iff)
      then have "c # s = [] @ sub @ q" by simp
      then show ?thesis by blast
    next
      case 2
      then obtain p q where "s = p @ sub @ q" using Cons.IH by blast
      then have "c # s = (c # p) @ sub @ q" by simp
      then show ?thesis by blast
    qed
  next
    assume "\<exists>p q. c # s = p @ sub @ q"
    then obtain p q where pq: "c # s = p @ sub @ q" by blast
    show "strings_Contains (c # s) sub"
    proof (cases p)
      case Nil
      with pq have "strings_HasPrefix (c # s) sub" by (auto simp: strings_HasPrefix_iff)
      then show ?thesis by simp
    next
      case (Cons a p')
      with pq have "s = p' @ sub @ q" by simp
      then have "strings_Contains s sub" using Cons.IH by blast
      then show ?thesis by simp
    qed
  qed
qed

lemma digit_val_digit_of: "d < 10 \<Longrightarrow> digit_val (digit_of d) = d"
proof -
  assume "d < 10"
  then have "d \<in> {0, 1, 2, 3, 4, 5, 6, 7, 8, 9}" by auto
  then show ?thesis by (auto simp: digit_val_def digit_of_def)
qed

lemma read_nat_snoc: "read_nat (s @ [c]) = 10 * read_nat s + digit_val c"
  by (simp add: read_nat_def)

lemma read_nat_fmt_nat: "read_nat (fmt_nat n) = n"
proof (induction n rule: fmt_nat.induct)
  case (1 n)
  show ?case
  proof (cases "n < 10")
    case True
    then show ?thesis
      by (simp add: fmt_nat.simps [of n] read_nat_def digit_val_digit_of)
  next
    case False
    then have "read_nat (fmt_nat (n div 10)) = n div 10" using "1.IH" by simp
    with False show ?thesis
      by (simp add: fmt_nat.simps [of n] read_nat_snoc digit_val_digit_of)
  qed
qed

section \<open>Facts about runs\<close>

lemma commit_statuses_simps:
  "commit_statuses [] = []"
  "commit_statuses (e # evs) = (case commit_status_of e of None \<Rightarrow> commit_statuses evs | Some c \<Rightarrow> c # commit_statuses evs)"
  "commit_statuses (xs @ ys) = commit_statuses xs @ commit_statuses ys"
  by (simp_all add: commit_statuses_def List.map_filter_def split: option.splits)

lemma state_statuses_simps:
  "state_statuses [] = []"
  "state_statuses (e # evs) = (case state_status_of e of None \<Rightarrow> state_statuses evs | Some c \<Rightarrow> c # state_statuses evs)"
  "state_statuses (xs @ ys) = state_statuses xs @ state_statuses ys"
  by (simp_all add: state_statuses_def List.map_filter_def split: option.splits)

lemma fetches_simps:
  "fetches [] = []"
  "fetches (e # evs) = (if is_fetch e then e # fetches evs else fetches evs)"
  "fetches (xs @ ys) = fetches xs @ fetches ys"
  by (simp_all add: fetches_def)

lemma same_job_refl: "same_job g g"
  by (simp add: same_job_def)

lemma same_job_addTiming: "same_job g h \<Longrightarrow> same_job g (addTiming w n h)"
  by (simp add: same_job_def addTiming_def)

lemma same_job_publicWarn: "same_job g h \<Longrightarrow> same_job g (publicWarn st t h)"
  by (simp add: same_job_def publicWarn_def)

lemma same_job_warnStep: "same_job g h \<Longrightarrow> same_job g (warnStep w n s h)"
  by (simp add: warnStep_def Let_def same_job_publicWarn)

lemma same_job_fold:
  assumes step: "\<And>x h. same_job g h \<Longrightarrow> same_job g (f x h)"
  shows "same_job g h \<Longrightarrow> same_job g (fold f xs h)"
  by (induction xs arbitrary: h) (simp_all add: step)

lemma same_job_warnGroup: "same_job g h \<Longrightarrow> same_job g (warnGroup w sg h)"
  unfolding warnGroup_def by (rule same_job_fold) (rule same_job_warnStep)

lemma same_job_warnDeps: "same_job g h \<Longrightarrow> same_job g (warnDeps w kt h)"
  by (simp add: warnDeps_def Let_def same_job_publicWarn)

lemma same_job_fold_warnGroup: "same_job g h \<Longrightarrow> same_job g (fold (warnGroup w) gs h)"
  by (rule same_job_fold) (rule same_job_warnGroup)

lemma same_job_fold_warnDeps: "same_job g h \<Longrightarrow> same_job g (fold (warnDeps w) ws h)"
  by (rule same_job_fold) (rule same_job_warnDeps)

lemmas same_job_intros = same_job_refl same_job_addTiming same_job_publicWarn
  same_job_fold_warnGroup same_job_fold_warnDeps

lemma prepareRepo_keeps:
  "prepareRepo w g = (r, g1, evs) \<Longrightarrow>
     same_job g g1 \<and> commit_statuses evs = [] \<and> state_statuses evs = []
     \<and> (newWorkspaceInstaller g \<noteq> None \<longrightarrow> evs = [])"
  unfolding prepareRepo_def Let_def
  by (auto split: if_splits option.splits outcome.splits sum.splits
        simp: commit_statuses_simps state_statuses_simps same_job_intros)

lemma work_body_keeps:
  "work_body w g = (p, res, err, g1, evs) \<Longrightarrow>
     same_job g g1 \<and> commit_statuses evs = [] \<and> state_statuses evs = []
     \<and> (p = None \<longrightarrow> res \<noteq> None \<or> err \<noteq> None)"
  unfolding work_body_def Let_def
  by (auto split: if_splits option.splits outcome.splits sum.splits prod.splits
        simp: commit_statuses_simps state_statuses_simps same_job_intros
        dest!: prepareRepo_keeps)

lemma work_keeps:
  "work w g = (res, err, g1, evs) \<Longrightarrow>
     same_job g g1 \<and> commit_statuses evs = [] \<and> state_statuses evs = []
     \<and> (res \<noteq> None \<or> err \<noteq> None)"
  unfolding work_def
  by (auto split: prod.splits option.splits dest!: work_body_keeps)


lemma detailsURL_same_job: "same_job g g1 \<Longrightarrow> detailsURL w g1 st = detailsURL w g st"
  by (simp add: same_job_def detailsURL_def)

lemma getGithubStatusForIssues_terminal:
  "getGithubStatusForIssues is = (st, d) \<Longrightarrow> is_terminal st"
  by (auto simp: getGithubStatusForIssues_def is_terminal_def split: if_splits)

lemma is_terminal_consts: "is_terminal StatusSuccess" "is_terminal StatusError"
  "is_terminal StatusFailure" "\<not> is_terminal StatusPending"
  by (simp_all add: is_terminal_def StatusSuccess_def StatusError_def StatusFailure_def
        StatusPending_def)

lemma finalization_shape:
  assumes wk: "work w g = (res, err, g1, evsW)"
  shows "\<exists>r s st desc.
           processWithGuaranteedGithubStatus w g =
             (Ret r, evsW @ [EvUpdateState (Owner (Repo (gcontext g))) (Name (Repo (gcontext g)))
                               (analysisGUID g) s,
                             EvSetCommitStatus (GetSHA (pr g)) st desc (detailsURL w g st)])
           \<and> Status s = ''processed/'' @ st
           \<and> (is_terminal st \<or> (\<exists>d b. err = Some (IgnoredError st d b)))"
proof -
  from wk have sj: "same_job g g1" and nn: "res \<noteq> None \<or> err \<noteq> None"
    using work_keeps by blast+
  from sj have eqs: "pr g1 = pr g" "gcontext g1 = gcontext g" "analysisGUID g1 = analysisGUID g"
    by (simp_all add: same_job_def)
  show ?thesis
  proof (cases err)
    case None
    with nn obtain r where r: "res = Some r" by auto
    obtain st d where sd: "getGithubStatusForIssues (Issues r) = (st, d)"
      by (cases "getGithubStatusForIssues (Issues r)")
    then have "is_terminal st" by (rule getGithubStatusForIssues_terminal)
    with None r sd wk eqs show ?thesis
      by (simp add: processWithGuaranteedGithubStatus_def updateAnalysisState_def
            setCommitStatus_def detailsURL_same_job [OF sj] Let_def)
  next
    case (Some e)
    show ?thesis
    proof (cases e)
      case (IgnoredError st d b)
      with Some wk eqs show ?thesis
        by (simp add: processWithGuaranteedGithubStatus_def updateAnalysisState_def
              setCommitStatus_def detailsURL_same_job [OF sj] Let_def split: option.splits)
    next
      case (InternalError pub priv)
      with Some wk eqs show ?thesis
        by (simp add: processWithGuaranteedGithubStatus_def updateAnalysisState_def
              setCommitStatus_def detailsURL_same_job [OF sj] Let_def is_terminal_consts
              split: option.splits)
    next
      case (BadInputError pub priv)
      with Some wk eqs show ?thesis
        by (simp add: processWithGuaranteedGithubStatus_def updateAnalysisState_def
              setCommitStatus_def detailsURL_same_job [OF sj] Let_def is_terminal_consts
              split: option.splits)
    next
      case (OtherError m)
      with Some wk eqs show ?thesis
        by (simp add: processWithGuaranteedGithubStatus_def updateAnalysisState_def
              setCommitStatus_def detailsURL_same_job [OF sj] Let_def is_terminal_consts
              split: option.splits)
    qed
  qed
qed


lemma terminal_states_simps:
  "terminal_states [] = []"
  "terminal_states (xs @ ys) = terminal_states xs @ terminal_states ys"
  by (simp_all add: terminal_states_def state_statuses_simps)

lemma terminal_statuses_simps:
  "terminal_statuses [] = []"
  "terminal_statuses (xs @ ys) = terminal_statuses xs @ terminal_statuses ys"
  by (simp_all add: terminal_statuses_def commit_statuses_simps)

lemma terminal_states_none: "state_statuses evs = [] \<Longrightarrow> terminal_states evs = []"
  by (simp add: terminal_states_def)

lemma terminal_statuses_none: "commit_statuses evs = [] \<Longrightarrow> terminal_statuses evs = []"
  by (simp add: terminal_statuses_def)

lemma Go2_Setup_events:
  "Go2_Setup w wi repo parts = (r, evs) \<Longrightarrow>
     commit_statuses evs = [] \<and> state_statuses evs = [] \<and> fetches evs = [EvFetch repo]"
  unfolding Go2_Setup_def Let_def
  by (auto split: outcome.splits option.splits sum.splits if_splits
        simp: commit_statuses_simps state_statuses_simps fetches_simps)

lemma Process_provision_Inr:
  "Process_provision w g = Inr (g1, evs1, d) \<Longrightarrow>
     \<exists>p. getPullRequest w = Inr p \<and> pr g1 = Some p \<and> gcontext g1 = gcontext g
        \<and> analysisGUID g1 = analysisGUID g
        \<and> newWorkspaceInstaller g1 = newWorkspaceInstaller g
        \<and> commit_statuses evs1 = [(StatusPending, pendingDesc, [])]
        \<and> state_statuses evs1 = []
        \<and> (newWorkspaceInstaller g = None \<longrightarrow> fetches evs1 = [])"
  unfolding Process_provision_def Let_def
  by (auto split: sum.splits if_splits option.splits prod.splits outcome.splits
        simp: setCommitStatus_def detailsURL_def is_terminal_consts commit_statuses_simps
              state_statuses_simps fetches_simps addTiming_def pendingDesc_def
              StatusPending_def StatusSuccess_def StatusFailure_def StatusError_def
        dest!: Go2_Setup_events)

lemma Process_patch_Inr:
  "Process_patch w g1 = Inr (g2, evs2) \<Longrightarrow>
     same_job g1 g2 \<and> commit_statuses evs2 = [] \<and> terminal_states evs2 = []
     \<and> fetches evs2 = []"
  unfolding Process_patch_def
  by (auto split: sum.splits if_splits option.splits outcome.splits
        simp: same_job_intros commit_statuses_simps state_statuses_simps fetches_simps
              terminal_states_def statusProcessing_def)

lemma Process_reached:
  "Process_provision w g = Inr (g1, evs1, d) \<Longrightarrow> Process_patch w g1 = Inr (g2, evs2) \<Longrightarrow>
   processWithGuaranteedGithubStatus w g2 = (r, evs3) \<Longrightarrow>
   Process w g = (r, evs1 @ evs2 @ evs3 @ (if d then [EvGwClean] else []) @ [EvExecClean (exec g)])"
  by (simp add: Process_def Process_body_def)

lemma Process_stopped_patch:
  "Process_provision w g = Inr (g1, evs1, d) \<Longrightarrow> Process_patch w g1 = Inl r \<Longrightarrow>
   Process w g = (r, evs1 @ (if d then [EvGwClean] else []) @ [EvExecClean (exec g)])"
  by (simp add: Process_def Process_body_def)

lemma Process_stopped_provision:
  "Process_provision w g = Inl (r, evs) \<Longrightarrow>
   Process w g = (r, evs @ [EvExecClean (exec g)])"
  by (simp add: Process_def Process_body_def)

lemma ready_SomeD:
  "ready w g = Some g2 \<Longrightarrow>
     \<exists>g1 evs1 d evs2. Process_provision w g = Inr (g1, evs1, d)
        \<and> Process_patch w g1 = Inr (g2, evs2)"
  by (auto simp: ready_def split: sum.splits prod.splits)

lemma post_events:
  "commit_statuses ((if d then [EvGwClean] else []) @ [EvExecClean ex]) = []"
  "state_statuses ((if d then [EvGwClean] else []) @ [EvExecClean ex]) = []"
  "fetches ((if d then [EvGwClean] else []) @ [EvExecClean ex]) = []"
  by (simp_all add: commit_statuses_simps state_statuses_simps fetches_simps)

lemma Process_ready_run:
  assumes rd: "ready w g = Some g2" and wk: "work w g2 = (res, err, g3, evsW)"
  shows "\<exists>r s st desc pre post p.
           Process w g =
             (Ret r, pre @ evsW @
                [EvUpdateState (Owner (Repo (gcontext g))) (Name (Repo (gcontext g)))
                   (analysisGUID g) s,
                 EvSetCommitStatus (pr_HeadSHA p) st desc (detailsURL w g2 st)] @ post)
           \<and> processWithGuaranteedGithubStatus w g2 =
               (Ret r, evsW @
                  [EvUpdateState (Owner (Repo (gcontext g))) (Name (Repo (gcontext g)))
                     (analysisGUID g) s,
                   EvSetCommitStatus (pr_HeadSHA p) st desc (detailsURL w g2 st)])
           \<and> getPullRequest w = Inr p \<and> pr g2 = Some p
           \<and> Status s = ''processed/'' @ st
           \<and> (is_terminal st \<or> (\<exists>d b. err = Some (IgnoredError st d b)))
           \<and> commit_statuses pre = [(StatusPending, pendingDesc, [])]
           \<and> terminal_states pre = []
           \<and> commit_statuses post = [] \<and> state_statuses post = [] \<and> fetches post = []
           \<and> (newWorkspaceInstaller g = None \<longrightarrow> fetches pre = [])"
proof -
  from rd obtain g1 evs1 d evs2 where
    pv: "Process_provision w g = Inr (g1, evs1, d)" and pt: "Process_patch w g1 = Inr (g2, evs2)"
    using ready_SomeD by blast
  from Process_provision_Inr [OF pv] obtain p where
    p: "getPullRequest w = Inr p" "pr g1 = Some p" "gcontext g1 = gcontext g"
       "analysisGUID g1 = analysisGUID g"
       "commit_statuses evs1 = [(StatusPending, pendingDesc, [])]" "state_statuses evs1 = []"
       "newWorkspaceInstaller g = None \<longrightarrow> fetches evs1 = []"
    by (elim exE conjE)
  from Process_patch_Inr [OF pt] have
    q: "same_job g1 g2" "commit_statuses evs2 = []" "terminal_states evs2 = []" "fetches evs2 = []"
    by blast+
  from q(1) p have g2: "pr g2 = Some p" "gcontext g2 = gcontext g" "analysisGUID g2 = analysisGUID g"
    by (simp_all add: same_job_def)
  from finalization_shape [OF wk] obtain r s st desc where
    fin: "processWithGuaranteedGithubStatus w g2 =
            (Ret r, evsW @ [EvUpdateState (Owner (Repo (gcontext g2))) (Name (Repo (gcontext g2)))
                              (analysisGUID g2) s,
                            EvSetCommitStatus (GetSHA (pr g2)) st desc (detailsURL w g2 st)])"
      and st: "Status s = ''processed/'' @ st"
              "is_terminal st \<or> (\<exists>d b. err = Some (IgnoredError st d b))"
    by blast
  let ?pre = "evs1 @ evs2" and ?post = "(if d then [EvGwClean] else []) @ [EvExecClean (exec g)]"
  have run: "Process w g =
      (Ret r, ?pre @ evsW @
         [EvUpdateState (Owner (Repo (gcontext g))) (Name (Repo (gcontext g))) (analysisGUID g) s,
          EvSetCommitStatus (pr_HeadSHA p) st desc (detailsURL w g2 st)] @ ?post)"
    using Process_reached [OF pv pt fin] g2 by (simp add: GetSHA_def)
  have fin': "processWithGuaranteedGithubStatus w g2 =
      (Ret r, evsW @
         [EvUpdateState (Owner (Repo (gcontext g))) (Name (Repo (gcontext g))) (analysisGUID g) s,
          EvSetCommitStatus (pr_HeadSHA p) st desc (detailsURL w g2 st)])"
    using fin g2 by (simp add: GetSHA_def)
  have pre: "commit_statuses ?pre = [(StatusPending, pendingDesc, [])]" "terminal_states ?pre = []"
    "newWorkspaceInstaller g = None \<longrightarrow> fetches ?pre = []"
    using p q by (simp_all add: commit_statuses_simps terminal_states_simps terminal_states_none
        fetches_simps)
  have post: "commit_statuses ?post = []" "state_statuses ?post = []" "fetches ?post = []"
    by (rule post_events)+
  from run fin' p(1) g2(1) st pre post show ?thesis
    by (intro exI [of _ r] exI [of _ s] exI [of _ st] exI [of _ desc] exI [of _ ?pre]
          exI [of _ ?post] exI [of _ p] conjI)
qed

lemma work_closed:
  assumes "strings_ToUpper (GetState (pr g)) = ''CLOSED''"
  shows "work w g = (None, Some (IgnoredError StatusSuccess ''Pull Request is already closed'' False),
                     publicWarn ''process'' ''Pull Request is already CLOSED, skip analysis'' g, [])"
  using assms
  by (simp add: work_def work_body_def Let_def strings_ToLower_def lower_char_def
        upper_letters_def lower_letters_def)


lemmas run_defs = ready_def Process_provision_def Process_patch_def Go2_Setup_def storePatch_def
  setCommitStatus_def getRepo_def addTiming_def statusSentToQueue_def Let_def

lemma os_Getenv_unset: "\<not> is_set vars key \<Longrightarrow> os_Getenv vars key = []"
  by (induction vars) (auto simp: is_set_def)

lemma strings_HasPrefix_append: "strings_HasPrefix (p @ s) p"
  by (simp add: strings_HasPrefix_iff)

lemma Process_provision_fail:
  assumes p: "getPullRequest w = Inr p"
    and se: "setup_error w (g\<lparr>pr := Some p\<rparr>) = Some err"
  shows "\<exists>pre s rj r.
           Process_provision w g =
             Inl (Ret r, pre @
                [EvUpdateState (Owner (Repo (gcontext g))) (Name (Repo (gcontext g)))
                   (analysisGUID g) s,
                 EvSetCommitStatus (pr_HeadSHA p) StatusError ''failed to setup''
                   (detailsURL w (g\<lparr>pr := Some p\<rparr>) StatusError)])
           \<and> Status s = ''processed/error'' \<and> ResultJSON s = Some rj
           \<and> Error (WorkerRes rj) =
               escapeErrorText w (''failed to setup workspace: '' @ Error_of w err) (buildSecrets w g)
           \<and> commit_statuses pre = [(StatusPending, pendingDesc, [])]
           \<and> state_statuses pre = []
           \<and> (newWorkspaceInstaller g \<noteq> None \<longrightarrow> r = None)
           \<and> (newWorkspaceInstaller g = None \<longrightarrow>
                 r = Some (OtherError (''can't setup go workspace: '' @ Error_of w err)))"
proof (cases "newWorkspaceInstaller g")
  case None
  with se have gs: "gwSetup w = Some err" by (simp add: setup_error_def)
  let ?pre = "setCommitStatus w (g\<lparr>pr := Some p\<rparr>) StatusPending pendingDesc"
  let ?s = "\<lparr>Status = ''processed/'' @ StatusError, ReportedIssuesCount = 0,
             ResultJSON = Some \<lparr>Version = 1,
                WorkerRes = \<lparr>Timings = timings g, Warnings = warnings g,
                   Error = escapeErrorText w (''failed to setup workspace: '' @ Error_of w err)
                             (buildSecrets w g)\<rparr>,
                GolangciLintRes = None\<rparr>,
             CreatedAt = 0\<rparr>"
  have bs: "buildSecrets w (g\<lparr>pr := Some p, gw := True\<rparr>) = buildSecrets w g"
    by (simp add: buildSecrets_def)
  have "Process_provision w g =
      Inl (Ret (Some (OtherError (''can't setup go workspace: '' @ Error_of w err))), ?pre @
         [EvUpdateState (Owner (Repo (gcontext g))) (Name (Repo (gcontext g))) (analysisGUID g) ?s,
          EvSetCommitStatus (pr_HeadSHA p) StatusError ''failed to setup''
            (detailsURL w (g\<lparr>pr := Some p\<rparr>) StatusError)])"
    using p None gs bs
    by (simp add: Process_provision_def Let_def updateAnalysisState_def setCommitStatus_def
          detailsURL_def GetSHA_def GetNumber_def pendingDesc_def)
  moreover have "commit_statuses ?pre = [(StatusPending, pendingDesc, [])]" "state_statuses ?pre = []"
    by (simp_all add: setCommitStatus_def commit_statuses_simps state_statuses_simps detailsURL_def
          StatusPending_def StatusSuccess_def StatusFailure_def StatusError_def)
  ultimately show ?thesis using None
    by (intro exI [of _ ?pre] exI [of _ ?s] exI [of _ "the (ResultJSON ?s)"]
          exI [of _ "Some (OtherError (''can't setup go workspace: '' @ Error_of w err))"] conjI)
       (simp_all add: StatusError_def)
next
  case (Some wi)
  let ?g = "g\<lparr>pr := Some p\<rparr>"
  let ?parts = "[''github.com'', Owner (Repo (gcontext g)), Name (Repo (gcontext g))]"
  obtain r0 evsS where su: "Go2_Setup w wi (getRepo w ?g) ?parts = (r0, evsS)"
    by (cases "Go2_Setup w wi (getRepo w ?g) ?parts")
  with se Some have r0: "r0 = Ret (Inl err)"
    by (auto simp: setup_error_def split: outcome.splits sum.splits)
  from Go2_Setup_events [OF su] have ev: "commit_statuses evsS = []" "state_statuses evsS = []"
    by blast+
  let ?pre = "setCommitStatus w ?g StatusPending pendingDesc @ evsS"
  let ?s = "\<lparr>Status = ''processed/'' @ StatusError, ReportedIssuesCount = 0,
             ResultJSON = Some \<lparr>Version = 1,
                WorkerRes = \<lparr>Timings = timings g, Warnings = warnings g,
                   Error = escapeErrorText w (''failed to setup workspace: '' @ Error_of w err)
                             (buildSecrets w g)\<rparr>,
                GolangciLintRes = None\<rparr>,
             CreatedAt = 0\<rparr>"
  have bs: "buildSecrets w ?g = buildSecrets w g"
    by (simp add: buildSecrets_def)
  have "Process_provision w g =
      Inl (Ret None, ?pre @
         [EvUpdateState (Owner (Repo (gcontext g))) (Name (Repo (gcontext g))) (analysisGUID g) ?s,
          EvSetCommitStatus (pr_HeadSHA p) StatusError ''failed to setup''
            (detailsURL w ?g StatusError)])"
    using p Some su r0 bs
    by (simp add: Process_provision_def Let_def updateAnalysisState_def setCommitStatus_def
          GetSHA_def pendingDesc_def)
  moreover have "commit_statuses ?pre = [(StatusPending, pendingDesc, [])]" "state_statuses ?pre = []"
    using ev
    by (simp_all add: setCommitStatus_def commit_statuses_simps state_statuses_simps detailsURL_def
          StatusPending_def StatusSuccess_def StatusFailure_def StatusError_def)
  ultimately show ?thesis using Some
    by (intro exI [of _ ?pre] exI [of _ ?s] exI [of _ "the (ResultJSON ?s)"]
          exI [of _ "None"] conjI)
       (simp_all add: StatusError_def)
qed

lemmas world_defs = world_ok_def world_patch_fails_def world_setup_fails_def world_closed_def
  world_closed_patch_fails_def world_runner_panics_def world_tempfile_fails_def
  world_no_go_files_def world_pr_fails_def
lemmas proc_defs = proc_A_def proc_B_def proc_A_ready_def proc_B_ready_def ctx0_def

section \<open>The status of an issue list\<close>

text \<open>
  Claim C7. The check status derived from the analyzer's issue list: the empty list gives
  success with "No issues found!", a list of one issue gives failure with "1 issue found",
  and a list of N > 1 issues gives failure with "N issues found", N written in decimal
  (reading the number back from the description gives the length of the list).
\<close>

theorem getGithubStatusForIssues_cases:
  "getGithubStatusForIssues [] = (StatusSuccess, ''No issues found!'')
   \<and> getGithubStatusForIssues [i] = (StatusFailure, ''1 issue found'')
   \<and> (1 < length issues \<longrightarrow>
        getGithubStatusForIssues issues = (StatusFailure, fmt_nat (length issues) @ '' issues found'')
        \<and> read_nat (fmt_nat (length issues)) = length issues)"
  by (simp add: getGithubStatusForIssues_def read_nat_fmt_nat)

theorem getGithubStatusForIssues_cases_witness:
  "1 < length [''a'', ''b'', ''c'']
   \<and> getGithubStatusForIssues [''a'', ''b'', ''c''] = (''failure'', ''3 issues found'')"
  using getGithubStatusForIssues_cases [of "''x''" "[''a'', ''b'', ''c'']"]
  by (simp add: fmt_nat.simps StatusFailure_def digit_of_def)

section \<open>Storing the patch\<close>

text \<open>
  Claim C10. If creating the temporary patch file fails, \<open>storePatch\<close> panics with a nil
  dereference instead of returning the error; whenever the temporary file is created it
  returns (it does not panic), and it returns an error exactly when writing the patch or
  copying it into the workspace fails.
\<close>

theorem storePatch_tempfile:
  "(tempFile w = Inl e \<longrightarrow> storePatch w patch ex = Panic nil_dereference)
   \<and> (tempFile w = Inr f \<longrightarrow>
        (\<exists>r. storePatch w patch ex = Ret r
           \<and> (r \<noteq> None \<longleftrightarrow> writeFile w f patch \<noteq> None \<or> execCopyFile w ex patchPath f \<noteq> None)))"
  by (auto simp: storePatch_def split: option.splits)

theorem storePatch_tempfile_witness:
  "tempFile world_tempfile_fails = Inl (OtherError ''no space left on device'')
   \<and> storePatch world_tempfile_fails ''diff'' sh0 = Panic nil_dereference
   \<and> tempFile world_ok = Inr ''/tmp/golangci.diff1''
   \<and> storePatch world_ok ''diff'' sh0 = Ret None"
  using storePatch_tempfile [of world_tempfile_fails "OtherError ''no space left on device''" "''diff''" sh0 "''x''"]
        storePatch_tempfile [of world_ok "OtherError ''x''" "''diff''" sh0 "''/tmp/golangci.diff1''"]
  by (simp add: world_tempfile_fails_def world_ok_def)

section \<open>The details URL of a commit status\<close>

text \<open>
  Claim C8, as amended. \<open>setCommitStatus\<close> passes a details URL that is non-empty exactly
  for success, failure and error, and empty for pending; when \<open>WEB_ROOT\<close> is not set the URL
  of a terminal status is the path \<open>/r/github.com/owner/name/pulls/number\<close> with an empty
  root, not the empty string.
\<close>

theorem detailsURL_terminal_only:
  "setCommitStatus w g status desc =
     [EvSetCommitStatus (GetSHA (pr g)) status desc (detailsURL w g status)]
   \<and> (detailsURL w g status \<noteq> [] \<longleftrightarrow> is_terminal status)
   \<and> detailsURL w g StatusPending = []
   \<and> (is_terminal status \<and> \<not> is_set (environ w) ''WEB_ROOT'' \<longrightarrow>
        detailsURL w g status =
          ''/r/github.com/'' @ Owner (Repo (gcontext g)) @ ''/'' @ Name (Repo (gcontext g))
            @ ''/pulls/'' @ fmt_int (GetNumber (pr g)))"
  by (auto simp: setCommitStatus_def detailsURL_def is_terminal_def os_Getenv_unset
        StatusPending_def StatusSuccess_def StatusFailure_def StatusError_def)

theorem detailsURL_terminal_only_witness:
  "detailsURL world_ok (proc_B_ready pr0) StatusSuccess \<noteq> [] \<and> is_terminal StatusSuccess
   \<and> \<not> is_set (environ world_ok) ''WEB_ROOT''
   \<and> detailsURL world_ok (proc_B_ready pr0) StatusSuccess = ''/r/github.com/golangci/test/pulls/7''"
  using detailsURL_terminal_only [of world_ok "proc_B_ready pr0" StatusSuccess "''x''"]
  by (simp add: is_terminal_def world_ok_def is_set_def proc_B_ready_def proc_B_def ctx0_def
        GetNumber_def pr0_def fmt_int_def fmt_nat.simps digit_of_def)

text \<open>
  Claim C8 as stated fails: with \<open>WEB_ROOT\<close> not set, the run on two issues sets the
  failure status with a details URL that is not empty.
\<close>

theorem detailsURL_WEB_ROOT_unset_counterexample:
  "\<not> is_set (environ world_ok) ''WEB_ROOT''
   \<and> commit_statuses (snd (Process world_ok proc_B)) =
       [(''pending'', ''GolangCI is reviewing your Pull Request...'', ''''),
        (''failure'', ''2 issues found'', ''/r/github.com/golangci/test/pulls/7'')]"
  by code_simp

section \<open>Derived executors\<close>

text \<open>
  Claim C9. Deriving an executor does not touch its parent: \<open>WithEnv\<close> and
  \<open>WithWorkDir\<close> return a new executor at a fresh address, \<open>base.WithEnv(k,v).WithEnv(k,v2)\<close>
  has \<open>k = v2\<close>, and the base keeps its environment and working directory under every
  derivation and under every later \<open>SetEnv\<close> or \<open>SetWorkDir\<close> on a derivative.
\<close>

theorem derivation_non_mutating:
  "a < length h \<Longrightarrow>
     (\<exists>d h1. WithEnv h a k v = Some (d, h1) \<and> d \<noteq> a \<and> h1 ! a = h ! a
         \<and> env (h1 ! d) k = Some v \<and> wd (h1 ! d) = wd (h ! a)
         \<and> (\<exists>d2 h2. WithEnv h1 d k v2 = Some (d2, h2) \<and> d2 \<noteq> d \<and> d2 \<noteq> a
               \<and> env (h2 ! d2) k = Some v2 \<and> h2 ! a = h ! a \<and> h2 ! d = h1 ! d)
         \<and> (\<forall>k' v' h'. SetEnv h1 d k' v' = Some h' \<longrightarrow> h' ! a = h ! a)
         \<and> (\<forall>p' h'. SetWorkDir h1 d p' = Some h' \<longrightarrow> h' ! a = h ! a))
     \<and> (\<exists>d h1. WithWorkDir h a p = Some (d, h1) \<and> d \<noteq> a \<and> h1 ! a = h ! a
         \<and> wd (h1 ! d) = p \<and> env (h1 ! d) = env (h ! a)
         \<and> (\<forall>k' v' h'. SetEnv h1 d k' v' = Some h' \<longrightarrow> h' ! a = h ! a)
         \<and> (\<forall>p' h'. SetWorkDir h1 d p' = Some h' \<longrightarrow> h' ! a = h ! a))"
  by (auto simp: WithEnv_def WithWorkDir_def SetEnv_def SetWorkDir_def WithEnv_copy_def
        WithWorkDir_copy_def shell_SetEnv_def nth_append Let_def split: if_splits)

theorem derivation_non_mutating_witness:
  "(0::nat) < length [sh0]
   \<and> (\<exists>d h1. WithEnv [sh0] 0 ''REPO'' ''a'' = Some (d, h1) \<and> d \<noteq> 0 \<and> h1 ! 0 = [sh0] ! 0
         \<and> env (h1 ! d) ''REPO'' = Some ''a'' \<and> wd (h1 ! d) = wd ([sh0] ! 0)
         \<and> (\<exists>d2 h2. WithEnv h1 d ''REPO'' ''b'' = Some (d2, h2) \<and> d2 \<noteq> d \<and> d2 \<noteq> 0
               \<and> env (h2 ! d2) ''REPO'' = Some ''b'' \<and> h2 ! 0 = [sh0] ! 0 \<and> h2 ! d = h1 ! d)
         \<and> (\<forall>k' v' h'. SetEnv h1 d k' v' = Some h' \<longrightarrow> h' ! 0 = [sh0] ! 0)
         \<and> (\<forall>p' h'. SetWorkDir h1 d p' = Some h' \<longrightarrow> h' ! 0 = [sh0] ! 0))
   \<and> (\<exists>d h1. WithWorkDir [sh0] 0 ''/goapp'' = Some (d, h1) \<and> d \<noteq> 0 \<and> h1 ! 0 = [sh0] ! 0
         \<and> wd (h1 ! d) = ''/goapp'' \<and> env (h1 ! d) = env ([sh0] ! 0)
         \<and> (\<forall>k' v' h'. SetEnv h1 d k' v' = Some h' \<longrightarrow> h' ! 0 = [sh0] ! 0)
         \<and> (\<forall>p' h'. SetWorkDir h1 d p' = Some h' \<longrightarrow> h' ! 0 = [sh0] ! 0))"
  using derivation_non_mutating [of 0 "[sh0]" "''REPO''" "''a''" "''b''" "''/goapp''"]
  by simp

section \<open>Finalization writes the state, then the status\<close>

text \<open>
  Claim C4. Finalization always returns, and what it does after the work function is exactly
  two calls in this order: \<open>UpdateState\<close> with the terminal record \<open>processed/status\<close>, then
  \<open>SetCommitStatus\<close> with that status; the work function itself writes no state and sets no
  status. This holds for every outcome of the work function.
\<close>

theorem finalization_state_before_status:
  "\<exists>r s st desc.
     processWithGuaranteedGithubStatus w g =
       (Ret r, snd (snd (snd (work w g))) @
          [EvUpdateState (Owner (Repo (gcontext g))) (Name (Repo (gcontext g))) (analysisGUID g) s,
           EvSetCommitStatus (GetSHA (pr g)) st desc (detailsURL w g st)])
     \<and> Status s = ''processed/'' @ st
     \<and> state_statuses (snd (snd (snd (work w g)))) = []
     \<and> commit_statuses (snd (snd (snd (work w g)))) = []"
proof -
  obtain res err g1 evsW where wk: "work w g = (res, err, g1, evsW)"
    by (cases "work w g") auto
  from finalization_shape [OF wk] work_keeps [OF wk] wk show ?thesis
    by auto
qed

section \<open>The "no go files" downgrade\<close>

text \<open>
  Claim C6. If the work function returns an internal error whose private description
  contains "no go files to analyze", finalization sets the commit status success with the
  message "No Go files to analyze", writes the record \<open>processed/success\<close>, and swallows the
  error: finalization and \<open>Process\<close> return nil.
\<close>

theorem no_go_files_downgraded:
  assumes "ready w g = Some g2"
    and "work w g2 = (res, Some (InternalError publicDesc privateDesc), g3, evsW)"
    and "strings_Contains privateDesc noGoFilesToAnalyzeErr"
  shows "fst (processWithGuaranteedGithubStatus w g2) = Ret None
     \<and> fst (Process w g) = Ret None
     \<and> commit_statuses (snd (Process w g)) =
         [(StatusPending, pendingDesc, []),
          (StatusSuccess, noGoFilesToAnalyzeMessage, detailsURL w g2 StatusSuccess)]
     \<and> terminal_states (snd (Process w g)) = [''processed/success'']"
proof -
  from work_keeps [OF assms(2)] have ev: "commit_statuses evsW = []" "state_statuses evsW = []"
    and sj: "same_job g2 g3" by blast+
  from Process_ready_run [OF assms(1,2)] obtain r s st desc pre post p where
    run: "Process w g =
             (Ret r, pre @ evsW @
                [EvUpdateState (Owner (Repo (gcontext g))) (Name (Repo (gcontext g)))
                   (analysisGUID g) s,
                 EvSetCommitStatus (pr_HeadSHA p) st desc (detailsURL w g2 st)] @ post)"
    and fin: "processWithGuaranteedGithubStatus w g2 =
               (Ret r, evsW @
                  [EvUpdateState (Owner (Repo (gcontext g))) (Name (Repo (gcontext g)))
                     (analysisGUID g) s,
                   EvSetCommitStatus (pr_HeadSHA p) st desc (detailsURL w g2 st)])"
    and rest: "getPullRequest w = Inr p" "Status s = ''processed/'' @ st"
      "commit_statuses pre = [(StatusPending, pendingDesc, [])]" "terminal_states pre = []"
      "commit_statuses post = []" "state_statuses post = []"
    by blast
  have dec: "processWithGuaranteedGithubStatus w g2 =
      (Ret None, evsW @ updateAnalysisState w g3 res StatusSuccess noGoFilesToAnalyzeMessage
                    @ setCommitStatus w g3 StatusSuccess noGoFilesToAnalyzeMessage)"
    using assms(2,3) by (simp add: processWithGuaranteedGithubStatus_def)
  from dec fin have r: "r = None" and st: "st = StatusSuccess" and d: "desc = noGoFilesToAnalyzeMessage"
    by (simp_all add: updateAnalysisState_def setCommitStatus_def Let_def)
  from run fin rest ev r st d show ?thesis
    by (simp add: commit_statuses_simps terminal_states_simps terminal_states_none
          terminal_statuses_none terminal_states_def state_statuses_simps StatusSuccess_def)
qed

theorem no_go_files_downgraded_witness:
  "ready world_no_go_files proc_B = Some (proc_B_ready pr0)
   \<and> work world_no_go_files (proc_B_ready pr0) =
       (None, Some (InternalError ''can't run linters'' ''golangci-lint: no go files to analyze''),
        addTiming world_no_go_files ''Analysis'' (proc_B_ready pr0),
        [EvRunLinters (exec (proc_B_ready pr0))])
   \<and> strings_Contains ''golangci-lint: no go files to analyze'' noGoFilesToAnalyzeErr
   \<and> fst (Process world_no_go_files proc_B) = Ret None
   \<and> terminal_states (snd (Process world_no_go_files proc_B)) = [''processed/success'']"
proof -
  have rd: "ready world_no_go_files proc_B = Some (proc_B_ready pr0)"
    by (simp add: run_defs world_no_go_files_def world_ok_def proc_B_def proc_B_ready_def)
  have wk: "work world_no_go_files (proc_B_ready pr0) =
       (None, Some (InternalError ''can't run linters'' ''golangci-lint: no go files to analyze''),
        addTiming world_no_go_files ''Analysis'' (proc_B_ready pr0),
        [EvRunLinters (exec (proc_B_ready pr0))])"
    by (simp add: work_def work_body_def prepareRepo_def world_no_go_files_def world_ok_def
          proc_B_ready_def proc_B_def GetState_def pr0_def strings_ToUpper_def upper_char_def
          lower_letters_def upper_letters_def Let_def)
  have ct: "strings_Contains ''golangci-lint: no go files to analyze'' noGoFilesToAnalyzeErr"
    by (simp add: noGoFilesToAnalyzeErr_def)
  from no_go_files_downgraded [OF rd wk ct] rd wk ct show ?thesis by simp
qed

section \<open>One terminal record and one terminal status\<close>

text \<open>
  Claim C1, as amended. A run that reaches finalization (the pull request was fetched, the
  workspace provisioned, the patch fetched and stored) returns, writes exactly one terminal
  state record \<open>processed/status\<close> and sets, after the pending status, exactly one commit
  status, that same status, whatever the work function returned or panicked with; the status
  is success, failure or error unless the work function handed back an \<open>IgnoredError\<close>
  carrying another one. A run whose workspace provisioning returns an error writes exactly
  one terminal record \<open>processed/error\<close> and sets exactly one terminal status. A run that
  ends at the patch (stages 4 and 5) or at fetching the pull request writes no terminal
  record and sets no terminal status.
\<close>

theorem Process_terminal_writes:
  "(ready w g = Some g2 \<longrightarrow>
      (\<exists>r st desc.
         fst (Process w g) = Ret r
         \<and> terminal_states (snd (Process w g)) = [''processed/'' @ st]
         \<and> commit_statuses (snd (Process w g)) =
             [(StatusPending, pendingDesc, []), (st, desc, detailsURL w g2 st)]
         \<and> (is_terminal st \<longrightarrow>
               terminal_statuses (snd (Process w g)) = [(st, desc, detailsURL w g2 st)])
         \<and> (is_terminal st \<or> (\<exists>d b. fst (snd (work w g2)) = Some (IgnoredError st d b)))))
   \<and> (getPullRequest w = Inr p \<and> setup_error w (g\<lparr>pr := Some p\<rparr>) = Some err \<longrightarrow>
        (\<exists>r. fst (Process w g) = Ret r)
        \<and> terminal_states (snd (Process w g)) = [''processed/error'']
        \<and> terminal_statuses (snd (Process w g)) =
            [(StatusError, ''failed to setup'', detailsURL w (g\<lparr>pr := Some p\<rparr>) StatusError)])
   \<and> (Process_provision w g = Inr (g1, evs1, d) \<and> Process_patch w g1 = Inl stopped \<longrightarrow>
        fst (Process w g) = stopped
        \<and> terminal_states (snd (Process w g)) = []
        \<and> terminal_statuses (snd (Process w g)) = [])
   \<and> (getPullRequest w = Inl e \<longrightarrow> snd (Process w g) = [EvExecClean (exec g)])"
proof (intro conjI impI)
  assume rd: "ready w g = Some g2"
  obtain res err' g3 evsW where wk: "work w g2 = (res, err', g3, evsW)"
    by (cases "work w g2") auto
  from work_keeps [OF wk] have ev: "commit_statuses evsW = []" "state_statuses evsW = []"
    by blast+
  from Process_ready_run [OF rd wk] obtain r s st desc pre post q where
    run: "Process w g =
             (Ret r, pre @ evsW @
                [EvUpdateState (Owner (Repo (gcontext g))) (Name (Repo (gcontext g)))
                   (analysisGUID g) s,
                 EvSetCommitStatus (pr_HeadSHA q) st desc (detailsURL w g2 st)] @ post)"
    and rest: "getPullRequest w = Inr q" "Status s = ''processed/'' @ st"
      "is_terminal st \<or> (\<exists>d b. err' = Some (IgnoredError st d b))"
      "commit_statuses pre = [(StatusPending, pendingDesc, [])]" "terminal_states pre = []"
      "commit_statuses post = []" "state_statuses post = []"
    by blast
  have a: "fst (Process w g) = Ret r" using run by simp
  have b: "terminal_states (snd (Process w g)) = [''processed/'' @ st]"
    using run rest ev
    by (simp add: terminal_states_simps terminal_states_none)
       (simp add: terminal_states_def state_statuses_simps strings_HasPrefix_append)
  have c: "commit_statuses (snd (Process w g)) =
             [(StatusPending, pendingDesc, []), (st, desc, detailsURL w g2 st)]"
    using run rest ev by (simp add: commit_statuses_simps)
  have d: "is_terminal st \<longrightarrow>
             terminal_statuses (snd (Process w g)) = [(st, desc, detailsURL w g2 st)]"
    using c by (simp add: terminal_statuses_def is_terminal_consts)
  have e: "is_terminal st \<or> (\<exists>d b. fst (snd (work w g2)) = Some (IgnoredError st d b))"
    using rest(3) wk by simp
  from a b c d e
  show "\<exists>r st desc.
         fst (Process w g) = Ret r
         \<and> terminal_states (snd (Process w g)) = [''processed/'' @ st]
         \<and> commit_statuses (snd (Process w g)) =
             [(StatusPending, pendingDesc, []), (st, desc, detailsURL w g2 st)]
         \<and> (is_terminal st \<longrightarrow>
               terminal_statuses (snd (Process w g)) = [(st, desc, detailsURL w g2 st)])
         \<and> (is_terminal st \<or> (\<exists>d b. fst (snd (work w g2)) = Some (IgnoredError st d b)))"
    by (intro exI [of _ r] exI [of _ st] exI [of _ desc] conjI)
next
  assume h: "getPullRequest w = Inr p \<and> setup_error w (g\<lparr>pr := Some p\<rparr>) = Some err"
  then have h1: "getPullRequest w = Inr p" and h2: "setup_error w (g\<lparr>pr := Some p\<rparr>) = Some err"
    by simp_all
  from Process_provision_fail [OF h1 h2] obtain pre s rj r where
    pv: "Process_provision w g =
             Inl (Ret r, pre @
                [EvUpdateState (Owner (Repo (gcontext g))) (Name (Repo (gcontext g)))
                   (analysisGUID g) s,
                 EvSetCommitStatus (pr_HeadSHA p) StatusError ''failed to setup''
                   (detailsURL w (g\<lparr>pr := Some p\<rparr>) StatusError)])"
    and rest: "Status s = ''processed/error''"
      "commit_statuses pre = [(StatusPending, pendingDesc, [])]" "state_statuses pre = []"
    by blast
  note run = Process_stopped_provision [OF pv]
  show "\<exists>r. fst (Process w g) = Ret r" using run by simp
  show "terminal_states (snd (Process w g)) = [''processed/error'']"
    using run rest by (simp add: terminal_states_def state_statuses_simps)
  show "terminal_statuses (snd (Process w g)) =
          [(StatusError, ''failed to setup'', detailsURL w (g\<lparr>pr := Some p\<rparr>) StatusError)]"
    using run rest
    by (simp add: terminal_statuses_def commit_statuses_simps is_terminal_consts)
next
  assume h: "Process_provision w g = Inr (g1, evs1, d) \<and> Process_patch w g1 = Inl stopped"
  then have pv: "Process_provision w g = Inr (g1, evs1, d)" and pt: "Process_patch w g1 = Inl stopped"
    by simp_all
  note run = Process_stopped_patch [OF pv pt]
  from Process_provision_Inr [OF pv] have
    ev: "commit_statuses evs1 = [(StatusPending, pendingDesc, [])]" "state_statuses evs1 = []"
    by blast+
  show "fst (Process w g) = stopped" using run by simp
  show "terminal_states (snd (Process w g)) = []"
    using run ev by (simp add: terminal_states_def state_statuses_simps)
  show "terminal_statuses (snd (Process w g)) = []"
    using run ev by (simp add: terminal_statuses_def commit_statuses_simps is_terminal_consts)
next
  assume "getPullRequest w = Inl e"
  then show "snd (Process w g) = [EvExecClean (exec g)]"
    by (simp add: Process_def Process_body_def Process_provision_def)
qed

theorem Process_terminal_writes_witness:
  "ready world_ok proc_B = Some (proc_B_ready pr0)
   \<and> (\<exists>r st desc.
         fst (Process world_ok proc_B) = Ret r
         \<and> terminal_states (snd (Process world_ok proc_B)) = [''processed/'' @ st]
         \<and> commit_statuses (snd (Process world_ok proc_B)) =
             [(StatusPending, pendingDesc, []),
              (st, desc, detailsURL world_ok (proc_B_ready pr0) st)])
   \<and> getPullRequest world_setup_fails = Inr pr0
   \<and> setup_error world_setup_fails (proc_B\<lparr>pr := Some pr0\<rparr>) =
       Some (OtherError ''goenvbuild failed: exit status 1'')
   \<and> terminal_states (snd (Process world_setup_fails proc_B)) = [''processed/error'']
   \<and> Process_provision world_patch_fails proc_A =
       Inr (proc_A\<lparr>pr := Some pr0, gw := True\<rparr>,
            [EvSetCommitStatus ''abc123'' StatusPending pendingDesc []], True)
   \<and> Process_patch world_patch_fails (proc_A\<lparr>pr := Some pr0, gw := True\<rparr>) =
       Inl (Ret (Some (OtherError ''502 Bad Gateway'')))
   \<and> fst (Process world_patch_fails proc_A) = Ret (Some (OtherError ''502 Bad Gateway''))
   \<and> terminal_states (snd (Process world_patch_fails proc_A)) = []
   \<and> terminal_statuses (snd (Process world_patch_fails proc_A)) = []
   \<and> getPullRequest world_pr_fails = Inl (OtherError ''404 Not Found'')
   \<and> snd (Process world_pr_fails proc_B) = [EvExecClean (exec proc_B)]"
proof -
  have h1: "ready world_ok proc_B = Some (proc_B_ready pr0)"
    by (simp add: run_defs world_defs proc_defs)
  have h2: "getPullRequest world_setup_fails = Inr pr0"
    by (simp add: world_defs)
  have h3: "setup_error world_setup_fails (proc_B\<lparr>pr := Some pr0\<rparr>) =
       Some (OtherError ''goenvbuild failed: exit status 1'')"
    by (simp add: setup_error_def Go2_Setup_def Error_of_def world_defs proc_defs Let_def)
  have h4: "Process_provision world_patch_fails proc_A =
       Inr (proc_A\<lparr>pr := Some pr0, gw := True\<rparr>,
            [EvSetCommitStatus ''abc123'' StatusPending pendingDesc []], True)"
    by (simp add: run_defs world_defs proc_defs sh0_def detailsURL_def GetSHA_def pr0_def
          pendingDesc_def StatusPending_def StatusSuccess_def StatusFailure_def StatusError_def)
  have h5: "Process_patch world_patch_fails (proc_A\<lparr>pr := Some pr0, gw := True\<rparr>) =
       Inl (Ret (Some (OtherError ''502 Bad Gateway'')))"
    by (simp add: run_defs world_defs)
  have h6: "getPullRequest world_pr_fails = Inl (OtherError ''404 Not Found'')"
    by (simp add: world_defs)
  note t1 = Process_terminal_writes [where w = world_ok and g = proc_B and ?g2.0 = "proc_B_ready pr0"]
  note t2 = Process_terminal_writes [where w = world_setup_fails and g = proc_B and p = pr0
      and err = "OtherError ''goenvbuild failed: exit status 1''"]
  note t3 = Process_terminal_writes [where w = world_patch_fails and g = proc_A
      and ?g1.0 = "proc_A\<lparr>pr := Some pr0, gw := True\<rparr>"
      and ?evs1.0 = "[EvSetCommitStatus ''abc123'' StatusPending pendingDesc []]" and d = True
      and stopped = "Ret (Some (OtherError ''502 Bad Gateway''))"]
  note t4 = Process_terminal_writes [where w = world_pr_fails and g = proc_B
      and e = "OtherError ''404 Not Found''"]
  from t1 h1 have c1: "\<exists>r st desc.
         fst (Process world_ok proc_B) = Ret r
         \<and> terminal_states (snd (Process world_ok proc_B)) = [''processed/'' @ st]
         \<and> commit_statuses (snd (Process world_ok proc_B)) =
             [(StatusPending, pendingDesc, []),
              (st, desc, detailsURL world_ok (proc_B_ready pr0) st)]"
    by blast
  from t2 h2 h3 have c2: "terminal_states (snd (Process world_setup_fails proc_B)) = [''processed/error'']"
    by blast
  from t3 h4 h5 have c3: "fst (Process world_patch_fails proc_A) = Ret (Some (OtherError ''502 Bad Gateway''))"
    "terminal_states (snd (Process world_patch_fails proc_A)) = []"
    "terminal_statuses (snd (Process world_patch_fails proc_A)) = []"
    by blast+
  from t4 h6 have c4: "snd (Process world_pr_fails proc_B) = [EvExecClean (exec proc_B)]"
    by blast
  from h1 h2 h3 h4 h5 h6 c1 c2 c3 c4 show ?thesis by (intro conjI)
qed

text \<open>
  Claim C1 as stated fails: the job whose patch cannot be fetched has entered the pipeline
  (the pending status is set), \<open>Process\<close> returns the error, and no terminal record is
  written and no terminal status set.
\<close>

theorem Process_no_terminal_write_counterexample:
  "fst (Process world_patch_fails proc_B) = Ret (Some (OtherError ''502 Bad Gateway''))
   \<and> commit_statuses (snd (Process world_patch_fails proc_B)) =
       [(''pending'', ''GolangCI is reviewing your Pull Request...'', '''')]
   \<and> terminal_states (snd (Process world_patch_fails proc_B)) = []
   \<and> terminal_statuses (snd (Process world_patch_fails proc_B)) = []"
  by code_simp

section \<open>Provisioning failures\<close>

text \<open>
  Claim C2, as amended. When workspace provisioning returns an error, \<open>Process\<close> writes,
  after the pending status, the terminal record \<open>processed/error\<close> whose public error is
  the redacted text of "failed to setup workspace: error", then sets the commit status
  error with "failed to setup", and returns; with the external builder
  (\<open>newWorkspaceInstaller\<close> set) it returns nil.
\<close>

theorem provisioning_failure_terminal_error:
  assumes "getPullRequest w = Inr p"
    and "setup_error w (g\<lparr>pr := Some p\<rparr>) = Some err"
  shows "\<exists>pre s rj r.
           Process w g =
             (Ret r, pre @
                [EvUpdateState (Owner (Repo (gcontext g))) (Name (Repo (gcontext g)))
                   (analysisGUID g) s,
                 EvSetCommitStatus (pr_HeadSHA p) StatusError ''failed to setup''
                   (detailsURL w (g\<lparr>pr := Some p\<rparr>) StatusError),
                 EvExecClean (exec g)])
           \<and> Status s = ''processed/error'' \<and> ResultJSON s = Some rj
           \<and> Error (WorkerRes rj) =
               escapeErrorText w (''failed to setup workspace: '' @ Error_of w err) (buildSecrets w g)
           \<and> commit_statuses pre = [(StatusPending, pendingDesc, [])]
           \<and> state_statuses pre = []
           \<and> (newWorkspaceInstaller g \<noteq> None \<longrightarrow> r = None)"
proof -
  from Process_provision_fail [OF assms] obtain pre s rj r where
    pv: "Process_provision w g =
             Inl (Ret r, pre @
                [EvUpdateState (Owner (Repo (gcontext g))) (Name (Repo (gcontext g)))
                   (analysisGUID g) s,
                 EvSetCommitStatus (pr_HeadSHA p) StatusError ''failed to setup''
                   (detailsURL w (g\<lparr>pr := Some p\<rparr>) StatusError)])"
    and rest: "Status s = ''processed/error''" "ResultJSON s = Some rj"
      "Error (WorkerRes rj) =
         escapeErrorText w (''failed to setup workspace: '' @ Error_of w err) (buildSecrets w g)"
      "commit_statuses pre = [(StatusPending, pendingDesc, [])]" "state_statuses pre = []"
      "newWorkspaceInstaller g \<noteq> None \<longrightarrow> r = None"
    by blast
  from Process_stopped_provision [OF pv] have
    "Process w g =
       (Ret r, pre @
          [EvUpdateState (Owner (Repo (gcontext g))) (Name (Repo (gcontext g))) (analysisGUID g) s,
           EvSetCommitStatus (pr_HeadSHA p) StatusError ''failed to setup''
             (detailsURL w (g\<lparr>pr := Some p\<rparr>) StatusError),
           EvExecClean (exec g)])"
    by simp
  with rest show ?thesis
    by (intro exI [of _ pre] exI [of _ s] exI [of _ rj] exI [of _ r] conjI)
qed

theorem provisioning_failure_terminal_error_witness:
  "getPullRequest world_setup_fails = Inr pr0
   \<and> setup_error world_setup_fails (proc_B\<lparr>pr := Some pr0\<rparr>) =
       Some (OtherError ''goenvbuild failed: exit status 1'')
   \<and> newWorkspaceInstaller proc_B \<noteq> None
   \<and> fst (Process world_setup_fails proc_B) = Ret None
   \<and> terminal_states (snd (Process world_setup_fails proc_B)) = [''processed/error'']"
proof -
  have h2: "getPullRequest world_setup_fails = Inr pr0"
    by (simp add: world_defs)
  have h3: "setup_error world_setup_fails (proc_B\<lparr>pr := Some pr0\<rparr>) =
       Some (OtherError ''goenvbuild failed: exit status 1'')"
    by (simp add: setup_error_def Go2_Setup_def Error_of_def world_defs proc_defs Let_def)
  have h4: "newWorkspaceInstaller proc_B \<noteq> None"
    by (simp add: proc_defs)
  from provisioning_failure_terminal_error [OF h2 h3] h4
  have "fst (Process world_setup_fails proc_B) = Ret None
      \<and> terminal_states (snd (Process world_setup_fails proc_B)) = [''processed/error'']"
    by (auto simp: terminal_states_def state_statuses_simps)
  with h2 h3 h4 show ?thesis by simp
qed

text \<open>
  Claim C2 as stated fails: with the legacy workspace the same failure writes the same
  record and status, and \<open>Process\<close> returns the error "can't setup go workspace: ...".
\<close>

theorem legacy_setup_failure_returns_error_counterexample:
  "getPullRequest world_setup_fails = Inr pr0
   \<and> setup_error world_setup_fails (proc_A\<lparr>pr := Some pr0\<rparr>) = Some (OtherError ''exit status 1'')
   \<and> fst (Process world_setup_fails proc_A) =
       Ret (Some (OtherError ''can't setup go workspace: exit status 1''))
   \<and> terminal_states (snd (Process world_setup_fails proc_A)) = [''processed/error'']
   \<and> commit_statuses (snd (Process world_setup_fails proc_A)) =
       [(''pending'', ''GolangCI is reviewing your Pull Request...'', ''''),
        (''error'', ''failed to setup'', ''/r/github.com/golangci/test/pulls/7'')]"
  by code_simp

section \<open>A closed pull request\<close>

text \<open>
  Claim C3, as amended. For a pull request whose state reads CLOSED in upper case, in a run
  whose provisioning, patch fetch and patch store succeed: the commit status pending is set,
  then success with "Pull Request is already closed"; the only terminal record is
  \<open>processed/success\<close>; \<open>Process\<close> returns nil; the work function calls no collaborator
  (no clone, no analysis, no review); and with the legacy workspace the driver calls the
  repo fetcher nowhere in the run.
\<close>

theorem closed_pull_request_skipped:
  assumes "getPullRequest w = Inr p"
    and "strings_ToUpper (pr_State p) = ''CLOSED''"
    and "ready w g = Some g2"
  shows "fst (Process w g) = Ret None
     \<and> commit_statuses (snd (Process w g)) =
         [(StatusPending, pendingDesc, []),
          (StatusSuccess, ''Pull Request is already closed'', detailsURL w g2 StatusSuccess)]
     \<and> terminal_states (snd (Process w g)) = [''processed/success'']
     \<and> snd (snd (snd (work w g2))) = []
     \<and> (newWorkspaceInstaller g = None \<longrightarrow> fetches (snd (Process w g)) = [])"
proof -
  let ?err = "Some (IgnoredError StatusSuccess ''Pull Request is already closed'' False)"
  let ?g3 = "publicWarn ''process'' ''Pull Request is already CLOSED, skip analysis'' g2"
  have any: "\<And>res err g3 evsW. work w g2 = (res, err, g3, evsW) \<Longrightarrow> pr g2 = Some p"
  proof -
    fix res err g3 evsW assume wk0: "work w g2 = (res, err, g3, evsW)"
    from Process_ready_run [OF assms(3) wk0] assms(1) show "pr g2 = Some p" by auto
  qed
  obtain res0 err0 g30 evs0 where "work w g2 = (res0, err0, g30, evs0)"
    by (cases "work w g2") auto
  then have prg: "pr g2 = Some p" by (rule any)
  with assms(2) have up: "strings_ToUpper (GetState (pr g2)) = ''CLOSED''"
    by (simp add: GetState_def)
  have wk: "work w g2 = (None, ?err, ?g3, [])" by (rule work_closed [OF up])
  from Process_ready_run [OF assms(3) wk] obtain r s st desc pre post q where
    run: "Process w g =
             (Ret r, pre @ [] @
                [EvUpdateState (Owner (Repo (gcontext g))) (Name (Repo (gcontext g)))
                   (analysisGUID g) s,
                 EvSetCommitStatus (pr_HeadSHA q) st desc (detailsURL w g2 st)] @ post)"
    and fin: "processWithGuaranteedGithubStatus w g2 =
               (Ret r, [] @
                  [EvUpdateState (Owner (Repo (gcontext g))) (Name (Repo (gcontext g)))
                     (analysisGUID g) s,
                   EvSetCommitStatus (pr_HeadSHA q) st desc (detailsURL w g2 st)])"
    and rest: "getPullRequest w = Inr q" "Status s = ''processed/'' @ st"
      "commit_statuses pre = [(StatusPending, pendingDesc, [])]" "terminal_states pre = []"
      "commit_statuses post = []" "state_statuses post = []" "fetches post = []"
      "newWorkspaceInstaller g = None \<longrightarrow> fetches pre = []"
    by (elim exE conjE) (rule that)
  have dec: "processWithGuaranteedGithubStatus w g2 =
      (Ret None, updateAnalysisState w ?g3 None StatusSuccess []
                    @ setCommitStatus w ?g3 StatusSuccess ''Pull Request is already closed'')"
    using wk by (simp add: processWithGuaranteedGithubStatus_def)
  from dec fin have r: "r = None" and st: "st = StatusSuccess"
    and d: "desc = ''Pull Request is already closed''"
    by (simp_all add: updateAnalysisState_def setCommitStatus_def Let_def)
  from run rest r st d wk show ?thesis
    by (simp add: commit_statuses_simps terminal_states_simps terminal_states_none
          terminal_states_def state_statuses_simps fetches_simps StatusSuccess_def)
qed

theorem closed_pull_request_skipped_witness:
  "getPullRequest world_closed = Inr (pr0\<lparr>pr_State := ''CLOSED''\<rparr>)
   \<and> strings_ToUpper (pr_State (pr0\<lparr>pr_State := ''CLOSED''\<rparr>)) = ''CLOSED''
   \<and> ready world_closed proc_A = Some (proc_A_ready (pr0\<lparr>pr_State := ''CLOSED''\<rparr>))
   \<and> newWorkspaceInstaller proc_A = None
   \<and> fst (Process world_closed proc_A) = Ret None
   \<and> terminal_states (snd (Process world_closed proc_A)) = [''processed/success'']
   \<and> fetches (snd (Process world_closed proc_A)) = []"
proof -
  have h1: "getPullRequest world_closed = Inr (pr0\<lparr>pr_State := ''CLOSED''\<rparr>)"
    by (simp add: world_defs)
  have h2: "strings_ToUpper (pr_State (pr0\<lparr>pr_State := ''CLOSED''\<rparr>)) = ''CLOSED''"
    by (simp add: strings_ToUpper_def upper_char_def lower_letters_def upper_letters_def)
  have h3: "ready world_closed proc_A = Some (proc_A_ready (pr0\<lparr>pr_State := ''CLOSED''\<rparr>))"
    by (simp add: run_defs world_defs proc_defs)
  have h4: "newWorkspaceInstaller proc_A = None"
    by (simp add: proc_defs)
  from closed_pull_request_skipped [OF h1 h2 h3] h1 h2 h3 h4 show ?thesis by simp
qed

text \<open>
  Claim C3 as stated fails twice: with the external builder, provisioning has fetched the
  repository before the work function looks at the state of the pull request; and when the
  patch of a closed pull request cannot be fetched, \<open>Process\<close> returns the error with
  only the pending status set.
\<close>

theorem closed_pull_request_cloned_counterexample:
  "pr_State (pr0\<lparr>pr_State := ''CLOSED''\<rparr>) = ''CLOSED''
   \<and> getPullRequest world_closed = Inr (pr0\<lparr>pr_State := ''CLOSED''\<rparr>)
   \<and> fst (Process world_closed proc_B) = Ret None
   \<and> commit_statuses (snd (Process world_closed proc_B)) =
       [(''pending'', ''GolangCI is reviewing your Pull Request...'', ''''),
        (''success'', ''Pull Request is already closed'', ''/r/github.com/golangci/test/pulls/7'')]
   \<and> terminal_states (snd (Process world_closed proc_B)) = [''processed/success'']
   \<and> length (fetches (snd (Process world_closed proc_B))) = 1
   \<and> getPullRequest world_closed_patch_fails = Inr (pr0\<lparr>pr_State := ''CLOSED''\<rparr>)
   \<and> fst (Process world_closed_patch_fails proc_A) = Ret (Some (OtherError ''502 Bad Gateway''))
   \<and> commit_statuses (snd (Process world_closed_patch_fails proc_A)) =
       [(''pending'', ''GolangCI is reviewing your Pull Request...'', '''')]
   \<and> state_statuses (snd (Process world_closed_patch_fails proc_A)) = []"
  by code_simp

section \<open>Panics\<close>

text \<open>
  Claim C5, as amended. A panic inside the work function becomes an internal error with the
  fixed public message "golangci-worker panic-ed" and a private description that contains
  the panic value; a panic that escapes \<open>analyzeLogged\<close> becomes the returned error of the
  task handlers \<open>analyzeWrappedV2\<close> and \<open>analyzeWrapped\<close>.
\<close>

theorem panics_become_errors:
  "(fst (work_body w g) = Some rerr \<longrightarrow>
      (\<exists>privateDesc.
         fst (snd (work w g)) = Some (InternalError ''golangci-worker panic-ed'' privateDesc)
         \<and> strings_Contains privateDesc rerr))
   \<and> (fst (analyzeLogged w ow nm tok num rq uid guid) = Panic r \<longrightarrow>
        fst (analyzeWrappedV2 w ow nm tok num rq uid guid) =
          Some (OtherError (''panic recovered: '' @ r @ '', '' @ debugStack w)))
   \<and> (fst (analyzeLogged w ow nm tok num rq uid []) = Panic r \<longrightarrow>
        fst (analyzeWrapped w ow nm tok num rq uid) =
          Some (OtherError (''panic recovered: '' @ r @ '', '' @ debugStack w)))"
proof (intro conjI impI)
  assume a: "fst (work_body w g) = Some rerr"
  have c: "strings_Contains (''panic occured: '' @ rerr @ '', '' @ debugStack w) rerr"
    unfolding strings_Contains_iff by blast
  from a have "fst (snd (work w g)) =
      Some (InternalError ''golangci-worker panic-ed''
              (''panic occured: '' @ rerr @ '', '' @ debugStack w))"
    by (cases "work_body w g") (simp add: work_def)
  with c show "\<exists>privateDesc.
         fst (snd (work w g)) = Some (InternalError ''golangci-worker panic-ed'' privateDesc)
         \<and> strings_Contains privateDesc rerr"
    by blast
next
  assume "fst (analyzeLogged w ow nm tok num rq uid guid) = Panic r"
  then show "fst (analyzeWrappedV2 w ow nm tok num rq uid guid) =
          Some (OtherError (''panic recovered: '' @ r @ '', '' @ debugStack w))"
    by (cases "analyzeLogged w ow nm tok num rq uid guid") (simp add: analyzeWrappedV2_def)
next
  assume "fst (analyzeLogged w ow nm tok num rq uid []) = Panic r"
  then show "fst (analyzeWrapped w ow nm tok num rq uid) =
          Some (OtherError (''panic recovered: '' @ r @ '', '' @ debugStack w))"
    by (cases "analyzeLogged w ow nm tok num rq uid []") (simp add: analyzeWrapped_def analyzeWrappedV2_def)
qed

theorem panics_become_errors_witness:
  "fst (work_body world_runner_panics (proc_B_ready pr0)) = Some ''index out of range''
   \<and> (\<exists>privateDesc.
         fst (snd (work world_runner_panics (proc_B_ready pr0))) =
           Some (InternalError ''golangci-worker panic-ed'' privateDesc)
         \<and> strings_Contains privateDesc ''index out of range'')
   \<and> fst (analyzeLogged world_tempfile_fails ''golangci'' ''test'' ''token123'' 7 ''req-1'' 42 ''guid-1'') =
       Panic nil_dereference
   \<and> fst (analyzeWrappedV2 world_tempfile_fails ''golangci'' ''test'' ''token123'' 7 ''req-1'' 42 ''guid-1'') =
       Some (OtherError (''panic recovered: '' @ nil_dereference @ '', ''
                           @ debugStack world_tempfile_fails))
   \<and> fst (analyzeLogged world_tempfile_fails ''golangci'' ''test'' ''token123'' 7 ''req-1'' 42 []) =
       Panic nil_dereference
   \<and> fst (analyzeWrapped world_tempfile_fails ''golangci'' ''test'' ''token123'' 7 ''req-1'' 42) =
       Some (OtherError (''panic recovered: '' @ nil_dereference @ '', ''
                           @ debugStack world_tempfile_fails))"
proof -
  have h1: "fst (work_body world_runner_panics (proc_B_ready pr0)) = Some ''index out of range''"
    by code_simp
  have h2: "fst (analyzeLogged world_tempfile_fails ''golangci'' ''test'' ''token123'' 7 ''req-1'' 42 ''guid-1'') =
       Panic nil_dereference"
    by code_simp
  have h3: "fst (analyzeLogged world_tempfile_fails ''golangci'' ''test'' ''token123'' 7 ''req-1'' 42 []) =
       Panic nil_dereference"
    by code_simp
  note t1 = panics_become_errors [where w = world_runner_panics and g = "proc_B_ready pr0"
      and rerr = "''index out of range''"]
  note t2 = panics_become_errors [where w = world_tempfile_fails and ow = "''golangci''"
      and nm = "''test''" and tok = "''token123''" and num = 7 and rq = "''req-1''"
      and uid = 42 and guid = "''guid-1''"
      and r = nil_dereference]
  from t1 h1 have c1: "\<exists>privateDesc.
         fst (snd (work world_runner_panics (proc_B_ready pr0))) =
           Some (InternalError ''golangci-worker panic-ed'' privateDesc)
         \<and> strings_Contains privateDesc ''index out of range''"
    by blast
  from t2 h2 have c2: "fst (analyzeWrappedV2 world_tempfile_fails ''golangci'' ''test'' ''token123'' 7 ''req-1'' 42 ''guid-1'') =
       Some (OtherError (''panic recovered: '' @ nil_dereference @ '', ''
                           @ debugStack world_tempfile_fails))"
    by blast
  from t2 h3 have c3: "fst (analyzeWrapped world_tempfile_fails ''golangci'' ''test'' ''token123'' 7 ''req-1'' 42) =
       Some (OtherError (''panic recovered: '' @ nil_dereference @ '', ''
                           @ debugStack world_tempfile_fails))"
    by blast
  from h1 h2 h3 c1 c2 c3 show ?thesis by (intro conjI)
qed

text \<open>
  Claim C5 as stated fails on the message: the public description of the error made from a
  panic is "golangci-worker panic-ed", not "worker panic-ed".
\<close>

theorem panic_message_counterexample:
  "fst (work_body world_runner_panics (proc_B_ready pr0)) = Some ''index out of range''
   \<and> fst (snd (work world_runner_panics (proc_B_ready pr0))) =
       Some (InternalError ''golangci-worker panic-ed''
               ''panic occured: index out of range, goroutine 1 [running]'')
   \<and> ''golangci-worker panic-ed'' \<noteq> ''worker panic-ed''"
  by code_simp

end
